theory Spec2Isabelle
  imports Complex_Main "HOL-Library.AList"
begin

section \<open>Python values, exceptions and configuration dictionaries\<close>

text \<open>
  The statistics module \<^verbatim>\<open>rcat/runtime/RCAT_stats.py\<close> is embedded function by
  function. An exception raised by the Python code is a value \<open>Inl e\<close>; text written
  with \<^verbatim>\<open>print\<close> is returned as a list of lines. A \<^verbatim>\<open>dict\<close> is an association
  list, which keeps Python's insertion order; \<open>map_of\<close> is the lookup and
  \<open>AList.update\<close> the item assignment \<^verbatim>\<open>d[k] = v\<close> (replace in place, or append).

  The module calls pandas, numpy, scipy and \<^verbatim>\<open>rcat.stats.convolve\<close>. A function of
  these libraries whose result a statistic depends on (\<^verbatim>\<open>to_timedelta\<close>,
  \<^verbatim>\<open>np.nanpercentile\<close>, \<^verbatim>\<open>np.histogram\<close>, \<^verbatim>\<open>np.digitize\<close>, \<^verbatim>\<open>np.arange\<close> on
  floats, the conversion of a row stored by \<^verbatim>\<open>np.apply_along_axis\<close>, \<^verbatim>\<open>curve_fit\<close>,
  \<^verbatim>\<open>lanczos_filter\<close>, and \<^verbatim>\<open>eval\<close> on a configured text) is an argument of the
  embedded function. The expressions that the statistics functions hand to xarray are
  built lazily; they are kept as terms and taken to be accepted by xarray.
\<close>

datatype error =
    KeyError
  | TypeError
  | ValueError
  | IndexError
  | AttributeError
  | AssertionError
  | UnboundLocalError
  | ZeroDivisionError
  | SyntaxError
  | SystemExit

datatype pyval =
    PNone
  | PBool bool
  | PInt int
  | PFloat real
  | PStr string
  | PList "pyval list"
  | PDict "(string \<times> pyval) list"

text \<open>Sequencing of steps that may raise: the first exception ends the run.\<close>

fun thenE :: "error + 'a \<Rightarrow> ('a \<Rightarrow> error + 'b) \<Rightarrow> error + 'b" where
  "thenE (Inl e) f = Inl e"
| "thenE (Inr x) f = f x"

type_synonym config = "(string \<times> pyval) list"

type_synonym stats_config = "(string \<times> config) list"

text \<open>A caller's request for one statistic: the string \<^verbatim>\<open>'default'\<close> or a dict of overrides.\<close>

datatype request = Default | Overrides config

subsection \<open>\<^verbatim>\<open>default_stats_config\<close>\<close>

definition stats_dict :: stats_config where
  "stats_dict = [
    (''moments'', [
       (''vars'', PList []),
       (''moment stat'', PList [PStr ''D'', PStr ''mean'']),
       (''resample resolution'', PNone),
       (''pool data'', PBool False),
       (''thr'', PNone),
       (''cond analysis'', PNone),
       (''chunk dimension'', PStr ''time'')]),
    (''seasonal cycle'', [
       (''vars'', PList []),
       (''resample resolution'', PNone),
       (''pool data'', PBool False),
       (''stat method'', PStr ''mean''),
       (''thr'', PNone),
       (''cond analysis'', PNone),
       (''chunk dimension'', PStr ''time'')]),
    (''annual cycle'', [
       (''vars'', PList []),
       (''resample resolution'', PNone),
       (''pool data'', PBool False),
       (''stat method'', PStr ''mean''),
       (''thr'', PNone),
       (''cond analysis'', PNone),
       (''chunk dimension'', PStr ''time'')]),
    (''diurnal cycle'', [
       (''vars'', PList []),
       (''resample resolution'', PNone),
       (''hours'', PNone),
       (''dcycle stat'', PStr ''amount''),
       (''stat method'', PStr ''mean''),
       (''method kwargs'', PNone),
       (''thr'', PNone),
       (''cond analysis'', PNone),
       (''pool data'', PBool False),
       (''chunk dimension'', PStr ''space'')]),
    (''dcycle harmonic'', [
       (''vars'', PList []),
       (''resample resolution'', PNone),
       (''pool data'', PBool False),
       (''dcycle stat'', PStr ''amount''),
       (''thr'', PNone),
       (''cond analysis'', PNone),
       (''chunk dimension'', PStr ''space'')]),
    (''asop'', [
       (''vars'', PList [PStr ''pr'']),
       (''resample resolution'', PNone),
       (''pool data'', PBool False),
       (''nr_bins'', PInt 80),
       (''thr'', PNone),
       (''cond analysis'', PNone),
       (''chunk dimension'', PStr ''space'')]),
    (''eda'', [
       (''vars'', PList [PStr ''pr'']),
       (''resample resolution'', PNone),
       (''pool data'', PBool False),
       (''duration bins'', PList (map PInt [1..50])),
       (''event statistic'', PStr ''amount''),
       (''statistic bins'', PList [PFloat (1/10), PFloat (2/10), PFloat (5/10),
          PInt 1, PInt 2, PInt 5, PInt 10, PInt 20, PInt 50, PInt 100, PInt 150, PInt 200]),
       (''dry events'', PBool False),
       (''dry bins'', PNone),
       (''event thr'', PFloat (1/10)),
       (''cond analysis'', PNone),
       (''chunk dimension'', PStr ''space'')]),
    (''pdf'', [
       (''vars'', PList []),
       (''resample resolution'', PNone),
       (''pool data'', PBool False),
       (''bins'', PNone),
       (''normalized'', PBool False),
       (''thr'', PNone),
       (''cond analysis'', PNone),
       (''dry event thr'', PNone),
       (''chunk dimension'', PStr ''space'')]),
    (''percentile'', [
       (''vars'', PList []),
       (''resample resolution'', PNone),
       (''pool data'', PBool False),
       (''pctls'', PList [PInt 95, PInt 99]),
       (''thr'', PNone),
       (''cond analysis'', PNone),
       (''chunk dimension'', PStr ''space'')]),
    (''Rxx'', [
       (''vars'', PList [PStr ''pr'']),
       (''resample resolution'', PNone),
       (''pool data'', PBool False),
       (''normalize'', PBool False),
       (''thr'', PFloat 1),
       (''cond analysis'', PNone),
       (''chunk dimension'', PStr ''space'')]),
    (''signal filtering'', [
       (''vars'', PList []),
       (''resample resolution'', PNone),
       (''pool data'', PBool False),
       (''filter'', PStr ''lanczos''),
       (''cutoff type'', PStr ''lowpass''),
       (''window'', PInt 61),
       (''mode'', PStr ''same''),
       (''1st cutoff'', PNone),
       (''2nd cutoff'', PNone),
       (''filter dim'', PInt 1),
       (''thr'', PNone),
       (''cond analysis'', PNone),
       (''chunk dimension'', PStr ''space'')])]"

text \<open>
  \<^verbatim>\<open>return {k: stats_dict[k] for k in stats}\<close>: the comprehension raises \<^verbatim>\<open>KeyError\<close> at
  the first name that is not a statistic.
\<close>

fun default_stats_config_from :: "stats_config \<Rightarrow> string list \<Rightarrow> error + stats_config" where
  "default_stats_config_from acc [] = Inr acc"
| "default_stats_config_from acc (k # ks) =
     (case map_of stats_dict k of
        None \<Rightarrow> Inl KeyError
      | Some c \<Rightarrow> default_stats_config_from (AList.update k c acc) ks)"

definition default_stats_config :: "string list \<Rightarrow> error + stats_config" where
  "default_stats_config stats = default_stats_config_from [] stats"

subsection \<open>\<^verbatim>\<open>mod_stats_config\<close>\<close>

definition msg :: "string \<Rightarrow> string \<Rightarrow> string" where
  "msg k m = ''For statistic '' @ k @ '', the configuration key '' @ m @
     '' is not available. Check possible configurations  in default_stats_config in stats_template module.''"

text \<open>
  The body of the \<^verbatim>\<open>try\<close>: the item assignment \<^verbatim>\<open>stats_dd[k][m] = requested_stats[k][m]\<close>.
  Reading \<^verbatim>\<open>stats_dd[k]\<close> raises \<^verbatim>\<open>KeyError\<close> when \<open>k\<close> is missing; storing under \<open>m\<close>
  in the dict found there never raises: Python inserts a key that is not present.
\<close>

definition set_item :: "stats_config \<Rightarrow> string \<Rightarrow> string \<Rightarrow> pyval \<Rightarrow> error + stats_config" where
  "set_item stats_dd k m v =
     (case map_of stats_dd k of
        None \<Rightarrow> Inl KeyError
      | Some c \<Rightarrow> Inr (AList.update k (AList.update m v c) stats_dd))"

text \<open>
  The inner loop \<^verbatim>\<open>for m in requested_stats[k]\<close> with its \<^verbatim>\<open>try\<close>/\<^verbatim>\<open>except KeyError\<close>.
  The state is the settings under construction and the lines printed so far.
\<close>

fun override_keys ::
  "string \<Rightarrow> config \<Rightarrow> string list \<Rightarrow> stats_config \<times> string list \<Rightarrow>
   error + stats_config \<times> string list" where
  "override_keys k req [] st = Inr st"
| "override_keys k req (m # ms) (stats_dd, out) =
     (case map_of req m of
        None \<Rightarrow> Inl KeyError
      | Some v \<Rightarrow>
          (case set_item stats_dd k m v of
             Inr stats_dd' \<Rightarrow> override_keys k req ms (stats_dd', out)
           | Inl KeyError \<Rightarrow> override_keys k req ms (stats_dd, out @ [msg k m])
           | Inl e \<Rightarrow> Inl e))"

text \<open>The outer loop \<^verbatim>\<open>for k in requested_stats\<close>.\<close>

fun override_stats ::
  "(string \<times> request) list \<Rightarrow> string list \<Rightarrow> stats_config \<times> string list \<Rightarrow>
   error + stats_config \<times> string list" where
  "override_stats requested_stats [] st = Inr st"
| "override_stats requested_stats (k # ks) st =
     (case map_of requested_stats k of
        None \<Rightarrow> Inl KeyError
      | Some Default \<Rightarrow> override_stats requested_stats ks st
      | Some (Overrides req) \<Rightarrow>
          (case override_keys k req (map fst req) st of
             Inl e \<Rightarrow> Inl e
           | Inr st' \<Rightarrow> override_stats requested_stats ks st'))"

definition mod_stats_config ::
  "(string \<times> request) list \<Rightarrow> error + stats_config \<times> string list" where
  "mod_stats_config requested_stats =
     (case default_stats_config (map fst requested_stats) of
        Inl e \<Rightarrow> Inl e
      | Inr stats_dd \<Rightarrow>
          override_stats requested_stats (map fst requested_stats) (stats_dd, []))"

text \<open>The value stored under an option of a statistic in a settings record.\<close>

definition setting :: "stats_config \<Rightarrow> string \<Rightarrow> string \<Rightarrow> pyval option" where
  "setting stats_dd k m = (case map_of stats_dd k of None \<Rightarrow> None | Some c \<Rightarrow> map_of c m)"

section \<open>Strings\<close>

text \<open>Python's \<^verbatim>\<open>sub in s\<close> on strings, \<^verbatim>\<open>s.partition(' ')[2]\<close>, \<^verbatim>\<open>s.isdigit()\<close>,
  \<^verbatim>\<open>int(s)\<close> on a string of digits, \<^verbatim>\<open>s.upper()\<close> and \<^verbatim>\<open>' '.join\<close>, on ASCII strings.\<close>

fun starts_with :: "string \<Rightarrow> string \<Rightarrow> bool" where
  "starts_with [] s = True"
| "starts_with (p # ps) [] = False"
| "starts_with (p # ps) (c # cs) = (p = c \<and> starts_with ps cs)"

fun str_contains :: "string \<Rightarrow> string \<Rightarrow> bool" where
  "str_contains sub [] = (sub = [])"
| "str_contains sub (c # cs) = (starts_with sub (c # cs) \<or> str_contains sub cs)"

fun after_space :: "string \<Rightarrow> string" where
  "after_space [] = []"
| "after_space (c # cs) = (if c = CHR '' '' then cs else after_space cs)"

definition digit_chars :: string where
  "digit_chars = ''0123456789''"

definition is_digit :: "char \<Rightarrow> bool" where
  "is_digit c = (c \<in> set digit_chars)"

definition isdigit :: "string \<Rightarrow> bool" where
  "isdigit s = (s \<noteq> [] \<and> list_all is_digit s)"

definition digit_val :: "char \<Rightarrow> nat" where
  "digit_val c = length (takeWhile (\<lambda>d. d \<noteq> c) digit_chars)"

definition int_of_digits :: "string \<Rightarrow> nat" where
  "int_of_digits s = foldl (\<lambda>n c. 10 * n + digit_val c) 0 s"

definition upper_char :: "char \<Rightarrow> char" where
  "upper_char c =
     (case map_of (zip ''abcdefghijklmnopqrstuvwxyz'' ''ABCDEFGHIJKLMNOPQRSTUVWXYZ'') c of
        Some u \<Rightarrow> u
      | None \<Rightarrow> c)"

definition upper :: "string \<Rightarrow> string" where
  "upper s = map upper_char s"

fun join :: "string \<Rightarrow> string list \<Rightarrow> string" where
  "join sep [] = []"
| "join sep [s] = s"
| "join sep (s # t # ss) = s @ sep @ join sep (t # ss)"

section \<open>Floats, arrays and datasets\<close>

text \<open>
  A float is \<^verbatim>\<open>nan\<close>, an infinity or a real number: rounding is not modelled, the
  special values are. A comparison with \<^verbatim>\<open>nan\<close> on either side is false.
\<close>

datatype npfloat = NaN | PInf | NInf | Num real

fun np_ge :: "npfloat \<Rightarrow> real \<Rightarrow> bool" where
  "np_ge NaN t = False"
| "np_ge PInf t = True"
| "np_ge NInf t = False"
| "np_ge (Num x) t = (t \<le> x)"

fun np_lt :: "npfloat \<Rightarrow> real \<Rightarrow> bool" where
  "np_lt NaN t = False"
| "np_lt PInf t = False"
| "np_lt NInf t = True"
| "np_lt (Num x) t = (x < t)"

definition isnan :: "npfloat \<Rightarrow> bool" where
  "isnan x = (x = NaN)"

text \<open>
  A dataset: the time axis as seconds since the epoch, and the data variables by name.
  A variable is kept pixel by pixel; each pixel holds its series along time.
\<close>

record dataset =
  time :: "int list"
  data_vars :: "(string \<times> npfloat list list) list"

text \<open>\<^verbatim>\<open>data[var]\<close>\<close>

definition get_var :: "dataset \<Rightarrow> string \<Rightarrow> error + npfloat list list" where
  "get_var data var =
     (case map_of (data_vars data) var of None \<Rightarrow> Inl KeyError | Some a \<Rightarrow> Inr a)"

text \<open>
  \<^verbatim>\<open>data.where(data[var] >= thr)\<close> builds a new dataset: every data variable keeps its
  value where the condition holds and becomes \<^verbatim>\<open>nan\<close> elsewhere. The variables of one
  dataset share their shape.
\<close>

definition mask_ge :: "real \<Rightarrow> npfloat list list \<Rightarrow> npfloat list list \<Rightarrow> npfloat list list" where
  "mask_ge thr cond a =
     map2 (\<lambda>cs xs. map2 (\<lambda>c x. if np_ge c thr then x else NaN) cs xs) cond a"

definition where_ge :: "dataset \<Rightarrow> string \<Rightarrow> real \<Rightarrow> error + dataset" where
  "where_ge data var thr =
     thenE (get_var data var) (\<lambda>cond.
       Inr (data\<lparr>data_vars := map (\<lambda>(n, a). (n, mask_ge thr cond a)) (data_vars data)\<rparr>))"

subsection \<open>Reading the configuration\<close>

text \<open>\<^verbatim>\<open>stat_config[stat][key]\<close>\<close>

definition cfg_get :: "stats_config \<Rightarrow> string \<Rightarrow> string \<Rightarrow> error + pyval" where
  "cfg_get stat_config stat key =
     (case map_of stat_config stat of
        None \<Rightarrow> Inl KeyError
      | Some c \<Rightarrow> (case map_of c key of None \<Rightarrow> Inl KeyError | Some v \<Rightarrow> Inr v))"

text \<open>\<^verbatim>\<open>var in x\<close>: membership in a dict is by key, in a list by element, in a string by
  substring; the other values are not iterable.\<close>

fun py_in :: "string \<Rightarrow> pyval \<Rightarrow> error + bool" where
  "py_in var (PDict d) = Inr (map_of d var \<noteq> None)"
| "py_in var (PList xs) = Inr (PStr var \<in> set xs)"
| "py_in var (PStr s) = Inr (str_contains var s)"
| "py_in var _ = Inl TypeError"

text \<open>\<^verbatim>\<open>x[var]\<close> with a string \<open>var\<close>: only a dict can be indexed by a string.\<close>

fun py_getitem :: "pyval \<Rightarrow> string \<Rightarrow> error + pyval" where
  "py_getitem (PDict d) var = (case map_of d var of None \<Rightarrow> Inl KeyError | Some v \<Rightarrow> Inr v)"
| "py_getitem _ var = Inl TypeError"

text \<open>The number a bound stands for in \<^verbatim>\<open>data[var] >= thr\<close>; a bound that is not a number
  makes the comparison raise.\<close>

fun py_number :: "pyval \<Rightarrow> error + real" where
  "py_number (PInt i) = Inr (real_of_int i)"
| "py_number (PFloat r) = Inr r"
| "py_number (PBool b) = Inr (if b then 1 else 0)"
| "py_number _ = Inl TypeError"

text \<open>
  The threshold block that opens \<^verbatim>\<open>moments\<close>, the cycles and \<^verbatim>\<open>filtering\<close>:
  \<^verbatim>\<open>
    in_thr = stat_config[stat]['thr']
    if in_thr is not None:
        if var in in_thr:
            thr = in_thr[var]
            data = data.where(data[var] >= thr)
        else:
            thr = None
    else:
        thr = in_thr
  \<close>
  It returns \<open>thr\<close> and the (possibly masked) \<open>data\<close>.
\<close>

definition threshold_where ::
  "stats_config \<Rightarrow> string \<Rightarrow> string \<Rightarrow> dataset \<Rightarrow> error + pyval \<times> dataset" where
  "threshold_where stat_config stat var data =
     thenE (cfg_get stat_config stat ''thr'') (\<lambda>in_thr.
       if in_thr \<noteq> PNone then
         thenE (py_in var in_thr) (\<lambda>present.
           if present then
             thenE (py_getitem in_thr var) (\<lambda>thr.
             thenE (py_number thr) (\<lambda>t.
             thenE (where_ge data var t) (\<lambda>data'. Inr (thr, data'))))
           else Inr (PNone, data))
       else Inr (in_thr, data))"


section \<open>\<^verbatim>\<open>_check_hours\<close> and \<^verbatim>\<open>_get_freq\<close>\<close>

definition minute :: "int \<Rightarrow> int" where
  "minute t = (t div 60) mod 60"

definition hour :: "int \<Rightarrow> int" where
  "hour t = (t div 3600) mod 24"

definition ceil_hour :: "int \<Rightarrow> int" where
  "ceil_hour t = - ((- t) div 3600) * 3600"

definition check_hours :: "dataset \<Rightarrow> dataset \<times> string list" where
  "check_hours ds =
     (if list_ex (\<lambda>t. minute t > 0) (time ds)
      then (ds\<lparr>time := map ceil_hour (time ds)\<rparr>,
            [''Shifting time stamps (upwards) to whole hours!''])
      else (ds, []))"

text \<open>
  \<^verbatim>\<open>_get_freq(tf)\<close> on a string: the digits form the count, the other characters the
  unit. \<^verbatim>\<open>reduce\<close> without an initial value raises \<^verbatim>\<open>TypeError\<close> on an empty
  sequence.
\<close>

definition get_freq :: "string \<Rightarrow> error + nat \<times> string" where
  "get_freq tf =
     (let ds = filter is_digit tf; us = filter (\<lambda>c. \<not> is_digit c) tf in
      if ds = [] then Inl TypeError
      else if us = [] then Inl TypeError
      else
        let freq = int_of_digits ds; unit = us in
        if unit = ''M'' \<or> unit = ''Y'' then
          Inr (if unit = ''M'' then freq * 30 else freq * 365, ''D'')
        else if hd unit = CHR ''Q'' then Inr (90, ''D'')
        else Inr (freq, unit))"

text \<open>
  A resolution token that is a bare unit, without a count, and the step it stands for
  in the words of the specification: one unit, where a month, a year and a quarter
  are taken as 30, 365 and 90 days.
\<close>

definition bare_unit :: "string \<Rightarrow> bool" where
  "bare_unit u = (u \<noteq> [] \<and> \<not> list_ex is_digit u)"

definition unit_step :: "string \<Rightarrow> nat \<times> string" where
  "unit_step u =
     (if u = ''M'' then (30, ''D'')
      else if u = ''Y'' then (365, ''D'')
      else if hd u = CHR ''Q'' then (90, ''D'')
      else (1, u))"

section \<open>The statistics functions\<close>

text \<open>
  The functions build their result lazily: what they return is the expression handed to
  xarray and dask, kept here as a term. The cases are the expressions the module
  builds.
\<close>

text \<open>An entry of the list \<^verbatim>\<open>['dry_events'] + list(bins)\<close>.\<close>

datatype label = DryEvents | Edge npfloat

datatype xr =
    Copy dataset
    \<comment> \<open>\<^verbatim>\<open>data.copy()\<close>\<close>
  | Resample dataset string string string
    \<comment> \<open>\<^verbatim>\<open>data[var].resample(time=f).m('time').dropna('time', 'all').to_dataset()\<close>
       with the dataset, \<open>var\<close>, \<open>f\<close> and \<open>m\<close>\<close>
  | HourlyReduce dataset string
    \<comment> \<open>\<^verbatim>\<open>data.groupby('time.hour').m('time')\<close> with the dataset and \<open>m\<close>\<close>
  | HourlyPercentile dataset string pyval nat pyval
    \<comment> \<open>\<^verbatim>\<open>apply_ufunc(_percentile_func, data[var].groupby('time.hour'), ...)\<close> with the
       coordinate \<^verbatim>\<open>pctls\<close>: the dataset, \<open>var\<close>, \<open>q\<close>, the declared size \<^verbatim>\<open>len(q)\<close> of
       the axis \<^verbatim>\<open>pctls\<close>, and \<open>thr\<close>\<close>
  | HourlyPdf dataset string "real list" int pyval
    \<comment> \<open>\<^verbatim>\<open>apply_ufunc(_pdf_calc, data[var].groupby('time.hour'), ...)\<close> with the coordinate
       \<^verbatim>\<open>bins\<close>: the dataset, \<open>var\<close>, the bin edges, the declared size of the axis \<^verbatim>\<open>bins\<close>,
       and \<open>thr\<close>\<close>
  | SelHours xr pyval
    \<comment> \<open>\<^verbatim>\<open>dcycle.chunk({'hour': -1}).sel(hour=hrs)\<close>; \<open>PNone\<close> stands for
       \<^verbatim>\<open>dcycle.hour\<close>, every hour of the cycle\<close>
  | HarmonicFit xr string nat
    \<comment> \<open>\<^verbatim>\<open>apply_ufunc(_harmonic_linefit, dcycle.chunk({'hour': -1})[var], ...)\<close>:
       the cycle, \<open>var\<close> and the declared size of the axis \<^verbatim>\<open>fit\<close>\<close>
  | AssignNdays xr "nat list"
    \<comment> \<open>\<^verbatim>\<open>st_data.assign({'ndays_per_hour': ('nday', totdays)})\<close>\<close>
  | PdfOf dataset string "npfloat list" int pyval pyval pyval
    \<comment> \<open>\<^verbatim>\<open>apply_ufunc(_pdf_calc, data[var], ...)\<close> along time: the dataset, \<open>var\<close>, the
       bin edges, the declared size of the axis \<^verbatim>\<open>bins\<close>, \<open>norm\<close>, \<open>thr\<close> and
       \<open>dry_thr\<close>\<close>
  | AssignBinEdges xr "label list"
    \<comment> \<open>\<^verbatim>\<open>pdf_ds.assign(bin_edges=['dry_events'] + list(bins))\<close>\<close>
  | Filtered dataset string "real list" real pyval
    \<comment> \<open>\<^verbatim>\<open>apply_ufunc(convolve.filtering, data[var], ...)\<close> along time: the dataset,
       \<open>var\<close>, the weights, the declared size \<open>out_dim\<close> of the axis \<^verbatim>\<open>filtered\<close>, and the
       mode\<close>

text \<open>The \<^verbatim>\<open>Description\<close> attribute is built with \<^verbatim>\<open>str.format\<close>: it is kept as the
  template and the values formatted into it.\<close>

record st_data =
  result :: xr
  Description :: "string \<times> pyval list"

subsection \<open>\<^verbatim>\<open>moments\<close>\<close>

text \<open>\<^verbatim>\<open>mstat[0]\<close> and \<^verbatim>\<open>mstat[1]\<close>\<close>

fun item :: "pyval \<Rightarrow> nat \<Rightarrow> error + pyval" where
  "item (PList xs) i = (if i < length xs then Inr (xs ! i) else Inl IndexError)"
| "item (PStr s) i = (if i < length s then Inr (PStr [s ! i]) else Inl IndexError)"
| "item (PDict d) i = Inl KeyError"
| "item _ i = Inl TypeError"

text \<open>
  \<^verbatim>\<open>
    if not isinstance(mstat[0], np.int):
        mstat[0] = str(1) + mstat[0]
  \<close>
  \<^verbatim>\<open>np.int\<close> is \<^verbatim>\<open>int\<close>, of which \<^verbatim>\<open>bool\<close> is a subclass. The concatenation needs a
  string, and the assignment into \<open>mstat\<close> a list: a string has no item assignment.
\<close>

definition prefix_one :: "pyval \<Rightarrow> error + pyval" where
  "prefix_one mstat =
     thenE (item mstat 0) (\<lambda>m0.
       case m0 of
         PInt i \<Rightarrow> Inr mstat
       | PBool b \<Rightarrow> Inr mstat
       | PStr s \<Rightarrow>
           (case mstat of
              PList xs \<Rightarrow> Inr (PList (xs[0 := PStr (''1'' @ s)]))
            | _ \<Rightarrow> Inl TypeError)
       | _ \<Rightarrow> Inl TypeError)"

text \<open>\<^verbatim>\<open>data.time.values[1] - data.time.values[0]\<close>, in seconds\<close>

definition time_step :: "dataset \<Rightarrow> error + real" where
  "time_step data =
     (case time data of
        t0 # t1 # _ \<Rightarrow> Inr (real_of_int (t1 - t0))
      | _ \<Rightarrow> Inl IndexError)"

text \<open>\<^verbatim>\<open>' '.join(s.upper() for s in mstat)\<close>: every element has to be a string.\<close>

fun upper_all :: "pyval list \<Rightarrow> error + string list" where
  "upper_all [] = Inr []"
| "upper_all (PStr s # xs) = thenE (upper_all xs) (\<lambda>ss. Inr (upper s # ss))"
| "upper_all (_ # xs) = Inl AttributeError"

fun py_str :: "pyval \<Rightarrow> error + string" where
  "py_str (PStr s) = Inr s"
| "py_str _ = Inl TypeError"

text \<open>
  A method name that is formatted into an expression and evaluated, as in
  \<^verbatim>\<open>eval("data.groupby('time.hour').{}('time')".format(tstat))\<close>: a value that is not a
  string formats to text that is no attribute name (\<^verbatim>\<open>.95(\<close>, \<^verbatim>\<open>.None(\<close>,
  \<^verbatim>\<open>.['a'](\<close>), and \<^verbatim>\<open>eval\<close> raises \<^verbatim>\<open>SyntaxError\<close>. What xarray does with a string
  that names no reduction is left to xarray: the expression is kept as it is.
\<close>

fun eval_method :: "pyval \<Rightarrow> error + string" where
  "eval_method (PStr s) = Inr s"
| "eval_method _ = Inl SyntaxError"

text \<open>
  \<^verbatim>\<open>moments\<close>. The first argument stands for pandas:
  \<open>to_timedelta tr fr\<close> is \<^verbatim>\<open>to_timedelta(tr, fr).total_seconds()\<close>.
  The branch for \<^verbatim>\<open>'all'\<close> evaluates the text
  \<^verbatim>\<open>"data.{}(dim='time', skipna=True)".format(mstat)\<close>; \<open>mstat\<close> is a list there, whose
  formatted text opens with a bracket, so the text is \<^verbatim>\<open>data.['...', ...](...)\<close> and
  \<^verbatim>\<open>eval\<close> raises \<^verbatim>\<open>SyntaxError\<close>.
\<close>

definition keeping_msg :: string where
  "keeping_msg = ''* Data already at the same or coarser time resolution as statistic!'' @
     [CHR 0x0A] @ ''* Keeping data as is ...'' @ [CHR 0x0A]"

definition moments ::
  "(nat \<Rightarrow> string \<Rightarrow> error + real) \<Rightarrow> dataset \<Rightarrow> string \<Rightarrow> string \<Rightarrow> stats_config \<Rightarrow>
   error + st_data \<times> string list" where
  "moments to_timedelta data var stat stat_config =
     thenE (cfg_get stat_config stat ''moment stat'') (\<lambda>mstat'.
     thenE (case mstat' of PDict d \<Rightarrow> py_getitem mstat' var | _ \<Rightarrow> Inr mstat') (\<lambda>mstat0.
     thenE (prefix_one mstat0) (\<lambda>mstat.
     thenE (threshold_where stat_config stat var data) (\<lambda>(thr, data).
     thenE (time_step data) (\<lambda>nsec.
     thenE (item mstat 0) (\<lambda>m0.
     thenE (case m0 of PStr s \<Rightarrow> get_freq s | _ \<Rightarrow> Inl TypeError) (\<lambda>(tr, fr).
     thenE (to_timedelta tr fr) (\<lambda>sec_resample.
     thenE (item mstat 1) (\<lambda>m1.
     thenE (if m0 = PStr ''all'' then Inl SyntaxError
            else if nsec \<ge> sec_resample then Inr (Copy data, [keeping_msg])
            else
              thenE (eval_method m1) (\<lambda>m.
              thenE (py_str m0) (\<lambda>f.
              thenE (get_var data var) (\<lambda>_. Inr (Resample data var f m, []))))) (\<lambda>(st, out).
     thenE (case mstat of PList xs \<Rightarrow> upper_all xs | _ \<Rightarrow> Inl TypeError) (\<lambda>names.
       Inr (\<lparr>result = st,
             Description = (''Moment statistic: {} | Threshold: {}'', [PStr (join '' '' names), thr])\<rparr>,
            out))))))))))))"

text \<open>
  The units of pandas' \<^verbatim>\<open>to_timedelta(value, unit)\<close> that denote a fixed number of
  seconds, from the pandas documentation; any other unit raises \<^verbatim>\<open>ValueError\<close>.
\<close>

definition pandas_to_timedelta :: "nat \<Rightarrow> string \<Rightarrow> error + real" where
  "pandas_to_timedelta n unit =
     (if unit \<in> {''W''} then Inr (real n * 604800)
      else if unit \<in> {''D'', ''d'', ''days'', ''day''} then Inr (real n * 86400)
      else if unit \<in> {''H'', ''h'', ''hours'', ''hour'', ''hr''} then Inr (real n * 3600)
      else if unit \<in> {''T'', ''m'', ''min'', ''minute'', ''minutes''} then Inr (real n * 60)
      else if unit \<in> {''S'', ''s'', ''sec'', ''second'', ''seconds''} then Inr (real n)
      else if unit \<in> {''L'', ''ms'', ''milli'', ''millis'', ''millisecond'', ''milliseconds''}
        then Inr (real n / 1000)
      else if unit \<in> {''U'', ''us'', ''micro'', ''micros'', ''microsecond'', ''microseconds''}
        then Inr (real n / 1000000)
      else if unit \<in> {''N'', ''ns'', ''nano'', ''nanos'', ''nanosecond'', ''nanoseconds''}
        then Inr (real n / 1000000000)
      else Inl ValueError)"

subsection \<open>\<^verbatim>\<open>diurnal_cycle\<close>\<close>

text \<open>\<^verbatim>\<open>len(q)\<close>\<close>

fun py_len :: "pyval \<Rightarrow> error + nat" where
  "py_len (PList xs) = Inr (length xs)"
| "py_len (PStr s) = Inr (length s)"
| "py_len (PDict d) = Inr (length d)"
| "py_len _ = Inl TypeError"

text \<open>\<^verbatim>\<open>tstat.partition(' ')[2]\<close>: only a string has the method.\<close>

fun partition2 :: "pyval \<Rightarrow> error + string" where
  "partition2 (PStr s) = Inr (after_space s)"
| "partition2 _ = Inl AttributeError"

text \<open>
  \<^verbatim>\<open>np.arange(start, stop, step)\<close>. numpy takes the number of values as the ceiling
  of \<open>(stop - start) / step\<close>, computed in double precision. On Python integers below
  \<open>2\<^sup>5\<^sup>2\<close> in size, with a step other than zero, the rounded quotient has the ceiling
  of the exact one, and the values \<open>start + i \<cdot> step\<close> are integers: the result is exact
  and is computed here. On any other numbers rounding can decide
  the count (a fractional step), the integers can overflow, or the division raises:
  the result is numpy's, which is the argument \<open>np_arange\<close> of \<open>arange_of\<close>.
\<close>

definition exact_ints :: "int \<Rightarrow> int \<Rightarrow> int \<Rightarrow> bool" where
  "exact_ints start stop step =
     (step \<noteq> 0 \<and> \<bar>start\<bar> < 2 ^ 52 \<and> \<bar>stop\<bar> < 2 ^ 52 \<and> \<bar>step\<bar> < 2 ^ 52)"

definition arange_int :: "int \<Rightarrow> int \<Rightarrow> int \<Rightarrow> real list" where
  "arange_int start stop step =
     map (\<lambda>i. real_of_int (start + int i * step))
       [0 ..< nat \<lceil>real_of_int (stop - start) / real_of_int step\<rceil>]"

text \<open>The three values as Python integers of that size, if they are.\<close>

fun int_triple :: "pyval \<Rightarrow> pyval \<Rightarrow> pyval \<Rightarrow> (int \<times> int \<times> int) option" where
  "int_triple (PInt start) (PInt stop) (PInt step) =
     (if exact_ints start stop step then Some (start, stop, step) else None)"
| "int_triple _ _ _ = None"

text \<open>\<^verbatim>\<open>np.arange(bin_r[0], bin_r[1], bin_r[2])\<close>\<close>

definition arange_of ::
  "(real \<Rightarrow> real \<Rightarrow> real \<Rightarrow> error + real list) \<Rightarrow> pyval \<Rightarrow> error + real list" where
  "arange_of np_arange bin_r =
     thenE (item bin_r 0) (\<lambda>b0.
     thenE (item bin_r 1) (\<lambda>b1.
     thenE (item bin_r 2) (\<lambda>b2.
       case int_triple b0 b1 b2 of
         Some (start, stop, step) \<Rightarrow> Inr (arange_int start stop step)
       | None \<Rightarrow>
           thenE (py_number b0) (\<lambda>start.
           thenE (py_number b1) (\<lambda>stop.
           thenE (py_number b2) (\<lambda>step. np_arange start stop step))))))"

text \<open>
  \<^verbatim>\<open>np.array([(data['time.hour'].values == h).sum() for h in np.arange(24)])\<close>:
  for each hour of the day, the number of time steps at that hour.
\<close>

definition totdays_of :: "dataset \<Rightarrow> nat list" where
  "totdays_of data = map (\<lambda>h. length (filter (\<lambda>t. hour t = int h) (time data))) [0 ..< 24]"

text \<open>
  The local variables that the branches of \<^verbatim>\<open>diurnal_cycle\<close> assign. A variable that
  a branch does not assign stays unbound (\<open>None\<close>), and reading it raises
  \<^verbatim>\<open>UnboundLocalError\<close>.
\<close>

record dc_locals =
  dcycle :: "xr option"
  st_data_local :: "xr option"
  totdays :: "nat list option"
  statnm :: "string \<times> pyval list"

text \<open>
  The branch \<^verbatim>\<open>dcycle_stat == 'amount'\<close>. The first argument stands for Python's
  \<^verbatim>\<open>eval\<close> on the percentile argument, the second for \<^verbatim>\<open>np.arange\<close> on floats. The
  percentile case assigns \<open>st_data\<close>, the other two cases assign \<open>dcycle\<close>.
\<close>

definition diurnal_amount ::
  "(string \<Rightarrow> error + pyval) \<Rightarrow> (real \<Rightarrow> real \<Rightarrow> real \<Rightarrow> error + real list) \<Rightarrow>
   dataset \<Rightarrow> string \<Rightarrow> string \<Rightarrow> stats_config \<Rightarrow> pyval \<Rightarrow> error + dc_locals" where
  "diurnal_amount py_eval np_arange data var stat stat_config thr =
     thenE (cfg_get stat_config stat ''stat method'') (\<lambda>tstat.
     thenE (py_in ''percentile'' tstat) (\<lambda>is_percentile.
     thenE
       (if is_percentile then
          thenE (partition2 tstat) (\<lambda>q.
            if q = [] then Inl ValueError
            else
              thenE (if isdigit q then Inr (PList [PFloat (real (int_of_digits q))])
                     else py_eval q) (\<lambda>q.
              thenE (get_var data var) (\<lambda>_.
              thenE (py_len q) (\<lambda>n.
                Inr (None, Some (HourlyPercentile data var q n thr))))))
        else
          thenE (py_in ''pdf'' tstat) (\<lambda>is_pdf.
            if is_pdf then
              thenE (cfg_get stat_config stat ''method kwargs'') (\<lambda>kwargs.
              thenE (py_in ''bins'' kwargs) (\<lambda>has_bins.
                if \<not> has_bins then Inl AssertionError
                else
                  thenE (py_getitem kwargs ''bins'') (\<lambda>bin_r.
                  thenE (arange_of np_arange bin_r) (\<lambda>bins.
                  thenE (get_var data var) (\<lambda>_.
                    let lbins = int (length bins) - 1 in
                    Inr (Some (HourlyPdf data var bins (lbins + 1) thr), None))))))
            else
              thenE (eval_method tstat) (\<lambda>m. Inr (Some (HourlyReduce data m), None))))
       (\<lambda>(dc, st).
          Inr \<lparr>dcycle = dc, st_data_local = st, totdays = None,
               statnm = (''Amount | stat: {} | thr: {}'', [tstat, thr])\<rparr>)))"

text \<open>The branch \<^verbatim>\<open>dcycle_stat == 'frequency'\<close>, with its assertion on \<open>thr\<close>.\<close>

definition diurnal_frequency :: "dataset \<Rightarrow> pyval \<Rightarrow> error + dc_locals" where
  "diurnal_frequency data thr =
     (if thr = PNone then Inl AssertionError
      else Inr \<lparr>dcycle = Some (HourlyReduce data ''count''), st_data_local = None,
                totdays = Some (totdays_of data),
                statnm = (''Frequency | stat: counts | thr: {}'', [thr])\<rparr>)"

text \<open>Reading a local variable.\<close>

definition read_local :: "'a option \<Rightarrow> error + 'a" where
  "read_local v = (case v of None \<Rightarrow> Inl UnboundLocalError | Some x \<Rightarrow> Inr x)"

definition diurnal_cycle ::
  "(string \<Rightarrow> error + pyval) \<Rightarrow> (real \<Rightarrow> real \<Rightarrow> real \<Rightarrow> error + real list) \<Rightarrow>
   dataset \<Rightarrow> string \<Rightarrow> string \<Rightarrow> stats_config \<Rightarrow> error + st_data \<times> string list" where
  "diurnal_cycle py_eval np_arange data var stat stat_config =
     thenE (cfg_get stat_config stat ''dcycle stat'') (\<lambda>dcycle_stat.
     thenE (threshold_where stat_config stat var data) (\<lambda>(thr, data).
       let checked = check_hours data; data = fst checked; out = snd checked in
     thenE (if dcycle_stat = PStr ''amount'' then
              diurnal_amount py_eval np_arange data var stat stat_config thr
            else if dcycle_stat = PStr ''frequency'' then diurnal_frequency data thr
            else Inl SystemExit) (\<lambda>l.
     thenE (read_local (dcycle l)) (\<lambda>dc.
     thenE (cfg_get stat_config stat ''hours'') (\<lambda>hrs.
     thenE (if dcycle_stat = PStr ''frequency'' then
              thenE (read_local (totdays l)) (\<lambda>td. Inr (AssignNdays (SelHours dc hrs) td))
            else Inr (SelHours dc hrs)) (\<lambda>st.
       Inr (\<lparr>result = st,
             Description = (''Diurnal cycle | '' @ fst (statnm l), snd (statnm l))\<rparr>,
            out)))))))"

subsection \<open>\<^verbatim>\<open>dcycle_harmonic_fit\<close>\<close>

text \<open>
  In the frequency branch the data, already masked by the threshold block, is masked
  once more with the same bound. The size of the new axis \<^verbatim>\<open>fit\<close> is declared as 204.
  The second attribute, \<^verbatim>\<open>Data info\<close>, is a constant text (the first four values of
  each fitted array are the parameters \<open>c1, p1, c2, p2\<close>) and is not kept.
\<close>

definition dcycle_harmonic_fit ::
  "dataset \<Rightarrow> string \<Rightarrow> string \<Rightarrow> stats_config \<Rightarrow> error + st_data \<times> string list" where
  "dcycle_harmonic_fit data var stat stat_config =
     thenE (cfg_get stat_config stat ''dcycle stat'') (\<lambda>dcycle_stat.
     thenE (threshold_where stat_config stat var data) (\<lambda>(thr, data).
     thenE
       (if dcycle_stat = PStr ''amount'' then
          (let checked = check_hours data; data = fst checked; out = snd checked in
             Inr (data, ''mean'', None, (''Amount | thr: {}'', [thr]), out))
        else if dcycle_stat = PStr ''frequency'' then
          (if thr = PNone then Inl AssertionError
           else
             thenE (py_number thr) (\<lambda>t.
             thenE (where_ge data var t) (\<lambda>data_sub.
               let checked = check_hours data_sub; data_sub = fst checked; out = snd checked in
                 Inr (data_sub, ''count'', Some (totdays_of data_sub),
                      (''Frequency | thr: {}'', [thr]), out))))
        else Inl SystemExit) (\<lambda>(grouped, m, td, nm, out).
     thenE (get_var grouped var) (\<lambda>_.
       let dc = HourlyReduce grouped m in
     thenE (if dcycle_stat = PStr ''frequency'' then
              thenE (read_local td) (\<lambda>td. Inr (AssignNdays (HarmonicFit dc var 204) td))
            else Inr (HarmonicFit dc var 204)) (\<lambda>st.
       Inr (\<lparr>result = st,
             Description = (''Harmonic fit of diurnal cycle | Statistic: '' @ fst nm, snd nm)\<rparr>,
            out))))))"

subsection \<open>\<^verbatim>\<open>filtering\<close>\<close>

text \<open>\<^verbatim>\<open>x % 2\<close> on a Python number; the result has the sign of the divisor.\<close>

definition py_mod2 :: "real \<Rightarrow> real" where
  "py_mod2 x = x - 2 * of_int \<lfloor>x / 2\<rfloor>"

text \<open>\<^verbatim>\<open>1/cutoff\<close>\<close>

definition reciprocal :: "pyval \<Rightarrow> error + real" where
  "reciprocal c =
     thenE (py_number c) (\<lambda>x. if x = 0 then Inl ZeroDivisionError else Inr (1 / x))"

text \<open>\<^verbatim>\<open>x == n\<close> for an integer literal \<open>n\<close>: Python compares numbers by value.\<close>

fun py_eq_int :: "pyval \<Rightarrow> int \<Rightarrow> bool" where
  "py_eq_int (PInt i) n = (i = n)"
| "py_eq_int (PFloat r) n = (r = of_int n)"
| "py_eq_int (PBool b) n = ((if b then 1 else 0) = n)"
| "py_eq_int _ n = False"

text \<open>
  \<^verbatim>\<open>filtering\<close>. The first argument stands for \<^verbatim>\<open>convolve.lanczos_filter\<close> of the
  module \<^verbatim>\<open>rcat.stats.convolve\<close>, which computes the weights from the window, the two
  cutoff frequencies and the cutoff type. The size of the new axis is declared from
  the configuration and the length of the time axis, before any data is filtered.
\<close>

definition filtering ::
  "(real \<Rightarrow> real \<Rightarrow> real \<Rightarrow> pyval \<Rightarrow> error + real list) \<Rightarrow> dataset \<Rightarrow> string \<Rightarrow> string \<Rightarrow>
   stats_config \<Rightarrow> error + st_data \<times> string list" where
  "filtering lanczos_filter data var stat stat_config =
     thenE (cfg_get stat_config stat ''cutoff type'') (\<lambda>ftype.
     thenE (cfg_get stat_config stat ''filter'') (\<lambda>filt.
     thenE (cfg_get stat_config stat ''window'') (\<lambda>window'.
     thenE (py_number window') (\<lambda>window.
     if py_mod2 window \<noteq> 1 then Inl AssertionError
     else
     thenE (cfg_get stat_config stat ''mode'') (\<lambda>mode.
     thenE (cfg_get stat_config stat ''1st cutoff'') (\<lambda>cutoff.
     thenE (cfg_get stat_config stat ''2nd cutoff'') (\<lambda>cutoff2.
     if ftype = PStr ''bandpass'' \<and> cutoff2 = PNone then Inl AssertionError
     else
     thenE (cfg_get stat_config stat ''filter dim'') (\<lambda>filt_dim.
     thenE (threshold_where stat_config stat var data) (\<lambda>(thr, data).
     thenE (if filt = PStr ''lanczos'' then
              thenE (reciprocal cutoff) (\<lambda>f1.
              thenE (reciprocal cutoff2) (\<lambda>f2. lanczos_filter window f1 f2 ftype))
            else Inl SystemExit) (\<lambda>wgts.
       let out_dim = (if mode = PStr ''valid'' \<or> mode = PNone
                      then real (length (time data)) - window + 1
                      else real (length (time data))) in
     thenE (if py_eq_int filt_dim 1 then
              thenE (get_var data var) (\<lambda>_. Inr (Filtered data var wgts out_dim mode))
            else Inl SystemExit) (\<lambda>st.
       Inr (\<lparr>result = st,
             Description =
               (''Convolved data | Filter Dimension: {} | Filter: {} | Cutoff Type: {}'' @
                '' | 1st Cutoff (time steps): {} | 2nd Cutoff (time steps): {}'' @
                '' | Filter Window Size: {}'',
                [filt_dim, filt, ftype, cutoff, cutoff2, window'])\<rparr>,
            []))))))))))))"

section \<open>The kernels\<close>

text \<open>
  A kernel receives a numpy array with time along its last axis: one series
  (\<open>Arr1\<close>), or an array of \<open>k + 2\<close> axes given by its rows along the last axis
  (\<open>ArrN k\<close>), one row for each pixel.
\<close>

datatype ndarray = Arr1 "npfloat list" | ArrN nat "npfloat list list"

fun ndim :: "ndarray \<Rightarrow> nat" where
  "ndim (Arr1 xs) = 1"
| "ndim (ArrN k rows) = k + 2"

fun map_elems :: "(npfloat \<Rightarrow> npfloat) \<Rightarrow> ndarray \<Rightarrow> ndarray" where
  "map_elems f (Arr1 xs) = Arr1 (map f xs)"
| "map_elems f (ArrN k rows) = ArrN k (map (map f) rows)"

subsection \<open>\<^verbatim>\<open>_percentile_func\<close>\<close>

text \<open>
  Arrays are objects: the kernel receives a reference \<open>arr\<close> into a store, and the
  caller holds the same reference. The statement \<^verbatim>\<open>arr[arr < thr] = np.nan\<close> assigns
  into the array that \<open>arr\<close> refers to. The first argument stands for
  \<^verbatim>\<open>np.nanpercentile(arr, axis=-1, q=q)\<close>, whose result has the percentile levels as
  its first axis; with more than two axes that axis is moved to the end. The module
  calls the kernel with \<^verbatim>\<open>axis=-1\<close> and a list \<open>q\<close>, as here.
\<close>

type_synonym store = "nat \<Rightarrow> ndarray"

definition percentile_func ::
  "(ndarray \<Rightarrow> real list \<Rightarrow> error + npfloat list list) \<Rightarrow> store \<Rightarrow> nat \<Rightarrow> real list \<Rightarrow>
   real option \<Rightarrow> store \<times> (error + npfloat list list)" where
  "percentile_func np_nanpercentile s arr q thr =
     (let s' = (case thr of
                  None \<Rightarrow> s
                | Some t \<Rightarrow> s(arr := map_elems (\<lambda>x. if np_lt x t then NaN else x) (s arr)))
      in (s',
          thenE (np_nanpercentile (s' arr) q) (\<lambda>pctl.
            Inr (if ndim (s' arr) > 2 then transpose pctl else pctl))))"

subsection \<open>\<^verbatim>\<open>_harmonic_linefit\<close>\<close>

text \<open>\<^verbatim>\<open>np.linspace(start, stop, num)\<close> on real numbers.\<close>

definition np_linspace :: "real \<Rightarrow> real \<Rightarrow> nat \<Rightarrow> real list" where
  "np_linspace start stop num =
     (if num = 1 then [start]
      else map (\<lambda>i. if i = num - 1 then stop
                     else start + real i * ((stop - start) / real (num - 1))) [0 ..< num])"

definition f1 :: "real \<Rightarrow> real \<Rightarrow> real \<Rightarrow> real \<Rightarrow> real" where
  "f1 t m c1 p1 = m + c1 * cos (2 * pi * t / 24 - p1)"

definition f2 :: "real \<Rightarrow> real \<Rightarrow> real \<Rightarrow> real \<Rightarrow> real" where
  "f2 t m c2 p2 = m + c2 * cos (4 * pi * t / 24 - p2)"

text \<open>
  The inner function \<^verbatim>\<open>_compute\<close>. The first argument stands for scipy:
  \<open>curve_fit f xdata ydata\<close> is \<^verbatim>\<open>optimize.curve_fit(f, xdata, ydata)[0]\<close>, the three
  fitted parameters, or the exception that scipy raises. The mean \<open>m\<close> of the curve is
  the one of the second fit, which overwrites the first.
\<close>

definition harmonic_compute ::
  "((real \<Rightarrow> real \<Rightarrow> real \<Rightarrow> real \<Rightarrow> real) \<Rightarrow> real list \<Rightarrow> npfloat list \<Rightarrow>
      error + real \<times> real \<times> real) \<Rightarrow>
   npfloat list \<Rightarrow> error + npfloat list \<times> string list" where
  "harmonic_compute curve_fit data1d =
     (if list_ex isnan data1d then Inr (replicate 204 NaN, [''Data missing/masked!''])
      else
        thenE (curve_fit f1 (map real [0 ..< length data1d]) data1d) (\<lambda>(m, c1, p1).
        thenE (curve_fit f2 (map real [0 ..< length data1d]) data1d) (\<lambda>(m, c2, p2).
          let t = np_linspace 0 23 200;
              r = map (\<lambda>t. m + c1 * cos (2 * pi * t / 24 - p1)
                               + c2 * cos (4 * pi * t / 24 - p2)) t
          in Inr (map Num ([c1, p1, c2, p2] @ r), []))))"

text \<open>
  \<^verbatim>\<open>np.apply_along_axis\<close>. numpy refuses an array without rows. The result for the
  first row fixes the shape and the dtype of the output buffer, and the result for
  every further row is assigned into that buffer: a result of another length raises
  \<^verbatim>\<open>ValueError\<close>, and a result of another dtype is converted by numpy. The
  conversion is the first argument: \<open>store_as first y\<close> is the row \<open>y\<close> as it is stored
  in a buffer typed by the row \<open>first\<close>, or the exception of the assignment.
\<close>

fun along_rows ::
  "('b list \<Rightarrow> 'b list \<Rightarrow> error + 'b list) \<Rightarrow> ('a \<Rightarrow> error + 'b list \<times> string list) \<Rightarrow>
   'b list \<Rightarrow> 'a list \<Rightarrow> error + 'b list list \<times> string list" where
  "along_rows store_as f first [] = Inr ([], [])"
| "along_rows store_as f first (x # xs) =
     thenE (f x) (\<lambda>(y, out).
       if length y \<noteq> length first then Inl ValueError
       else
         thenE (store_as first y) (\<lambda>y'.
         thenE (along_rows store_as f first xs) (\<lambda>(ys, outs). Inr (y' # ys, out @ outs))))"

datatype 'a kernel_out = Out1 "'a list" | OutN nat "'a list list"

fun apply_along_axis ::
  "('b list \<Rightarrow> 'b list \<Rightarrow> error + 'b list) \<Rightarrow>
   (npfloat list \<Rightarrow> error + 'b list \<times> string list) \<Rightarrow> ndarray \<Rightarrow>
   error + 'b kernel_out \<times> string list" where
  "apply_along_axis store_as f (Arr1 xs) = thenE (f xs) (\<lambda>(y, out). Inr (Out1 y, out))"
| "apply_along_axis store_as f (ArrN k []) = Inl ValueError"
| "apply_along_axis store_as f (ArrN k (row # rows)) =
     thenE (f row) (\<lambda>(y, out).
     thenE (along_rows store_as f y rows) (\<lambda>(ys, outs). Inr (OutN k (y # ys), out @ outs)))"

text \<open>A row of floats is stored in a buffer of floats as it is.\<close>

definition store_float :: "npfloat list \<Rightarrow> npfloat list \<Rightarrow> error + npfloat list" where
  "store_float first y = Inr y"

text \<open>The module calls the kernel with \<^verbatim>\<open>keepdims=True\<close> and \<^verbatim>\<open>axis=-1\<close>; without
  \<^verbatim>\<open>keepdims\<close> the data has to be one series.\<close>

definition harmonic_linefit ::
  "((real \<Rightarrow> real \<Rightarrow> real \<Rightarrow> real \<Rightarrow> real) \<Rightarrow> real list \<Rightarrow> npfloat list \<Rightarrow>
      error + real \<times> real \<times> real) \<Rightarrow>
   ndarray \<Rightarrow> bool \<Rightarrow> error + npfloat kernel_out \<times> string list" where
  "harmonic_linefit curve_fit data keepdims =
     (if keepdims then apply_along_axis store_float (harmonic_compute curve_fit) data
      else
        (case data of
           Arr1 data1d \<Rightarrow>
             thenE (harmonic_compute curve_fit data1d) (\<lambda>(y, out). Inr (Out1 y, out))
         | ArrN k rows \<Rightarrow> Inl AssertionError))"

text \<open>
  What scipy's \<^verbatim>\<open>curve_fit\<close> checks first, from its documentation: with
  \<^verbatim>\<open>check_finite\<close>, the default, data that holds an infinity or \<^verbatim>\<open>nan\<close> raises
  \<^verbatim>\<open>ValueError\<close>. What it does on finite data is the argument \<open>leastsq\<close>.
\<close>

definition finite_float :: "npfloat \<Rightarrow> bool" where
  "finite_float x = (case x of Num r \<Rightarrow> True | _ \<Rightarrow> False)"

definition scipy_curve_fit ::
  "((real \<Rightarrow> real \<Rightarrow> real \<Rightarrow> real \<Rightarrow> real) \<Rightarrow> real list \<Rightarrow> npfloat list \<Rightarrow>
      error + real \<times> real \<times> real) \<Rightarrow>
   (real \<Rightarrow> real \<Rightarrow> real \<Rightarrow> real \<Rightarrow> real) \<Rightarrow> real list \<Rightarrow> npfloat list \<Rightarrow>
   error + real \<times> real \<times> real" where
  "scipy_curve_fit leastsq f xdata ydata =
     (if \<not> list_all finite_float ydata then Inl ValueError
      else leastsq f xdata ydata)"

text \<open>
  The words of the claim for one pixel, to compare the kernel with. A result \<open>v\<close> of
  the series \<open>data1d\<close> is as claimed when it has 204 entries, all missing if the series
  has a missing value, and otherwise the fitted \<open>c1, p1, c2, p2\<close> followed by the sum of
  the two harmonics at 200 points of the day. The fits return on a series if it has a
  missing value, for which none is made, or if both calls of \<^verbatim>\<open>curve_fit\<close> return.
\<close>

definition fit_vector_of ::
  "((real \<Rightarrow> real \<Rightarrow> real \<Rightarrow> real \<Rightarrow> real) \<Rightarrow> real list \<Rightarrow> npfloat list \<Rightarrow>
      error + real \<times> real \<times> real) \<Rightarrow> npfloat list \<Rightarrow> npfloat list \<Rightarrow> bool" where
  "fit_vector_of curve_fit data1d v =
     (length v = 204 \<and>
      (if list_ex isnan data1d then v = replicate 204 NaN
       else \<exists>m1 c1 p1 m c2 p2.
              curve_fit f1 (map real [0 ..< length data1d]) data1d = Inr (m1, c1, p1) \<and>
              curve_fit f2 (map real [0 ..< length data1d]) data1d = Inr (m, c2, p2) \<and>
              take 4 v = [Num c1, Num p1, Num c2, Num p2] \<and>
              drop 4 v = map (\<lambda>t. Num (m + c1 * cos (2 * pi * t / 24 - p1)
                                           + c2 * cos (4 * pi * t / 24 - p2)))
                           (np_linspace 0 23 200) \<and>
              length (drop 4 v) = 200))"

definition fits_return ::
  "((real \<Rightarrow> real \<Rightarrow> real \<Rightarrow> real \<Rightarrow> real) \<Rightarrow> real list \<Rightarrow> npfloat list \<Rightarrow>
      error + real \<times> real \<times> real) \<Rightarrow> npfloat list \<Rightarrow> bool" where
  "fits_return curve_fit data1d =
     (list_ex isnan data1d \<or>
      (\<exists>p. curve_fit f1 (map real [0 ..< length data1d]) data1d = Inr p) \<and>
      (\<exists>p. curve_fit f2 (map real [0 ..< length data1d]) data1d = Inr p))"

subsection \<open>Float arithmetic\<close>

text \<open>
  Sums, products and quotients with the special values of IEEE arithmetic: \<^verbatim>\<open>nan\<close>
  absorbs, \<open>\<infinity> - \<infinity>\<close>, \<open>0 \<cdot> \<infinity>\<close>, \<open>0 / 0\<close> and \<open>\<infinity> / \<infinity>\<close> are \<^verbatim>\<open>nan\<close>, and numpy divides
  a number other than zero by zero to an infinity. Zero has no sign here.
\<close>

definition np_add :: "npfloat \<Rightarrow> npfloat \<Rightarrow> npfloat" where
  "np_add a b =
     (case (a, b) of
        (NaN, _) \<Rightarrow> NaN
      | (_, NaN) \<Rightarrow> NaN
      | (PInf, NInf) \<Rightarrow> NaN
      | (NInf, PInf) \<Rightarrow> NaN
      | (PInf, _) \<Rightarrow> PInf
      | (_, PInf) \<Rightarrow> PInf
      | (NInf, _) \<Rightarrow> NInf
      | (_, NInf) \<Rightarrow> NInf
      | (Num x, Num y) \<Rightarrow> Num (x + y))"



text \<open>An infinity of the sign of \<open>x\<close>, for \<open>x\<close> other than zero.\<close>

definition inf_of_sign :: "real \<Rightarrow> npfloat" where
  "inf_of_sign x = (if x > 0 then PInf else if x < 0 then NInf else NaN)"

definition np_mul :: "npfloat \<Rightarrow> npfloat \<Rightarrow> npfloat" where
  "np_mul a b =
     (case (a, b) of
        (NaN, _) \<Rightarrow> NaN
      | (_, NaN) \<Rightarrow> NaN
      | (PInf, PInf) \<Rightarrow> PInf
      | (PInf, NInf) \<Rightarrow> NInf
      | (NInf, PInf) \<Rightarrow> NInf
      | (NInf, NInf) \<Rightarrow> PInf
      | (PInf, Num y) \<Rightarrow> inf_of_sign y
      | (NInf, Num y) \<Rightarrow> inf_of_sign (- y)
      | (Num x, PInf) \<Rightarrow> inf_of_sign x
      | (Num x, NInf) \<Rightarrow> inf_of_sign (- x)
      | (Num x, Num y) \<Rightarrow> Num (x * y))"

definition np_div :: "npfloat \<Rightarrow> npfloat \<Rightarrow> npfloat" where
  "np_div a b =
     (case (a, b) of
        (NaN, _) \<Rightarrow> NaN
      | (_, NaN) \<Rightarrow> NaN
      | (Num x, Num y) \<Rightarrow> (if y = 0 then inf_of_sign x else Num (x / y))
      | (Num x, _) \<Rightarrow> Num 0
      | (PInf, Num y) \<Rightarrow> (if y < 0 then NInf else PInf)
      | (NInf, Num y) \<Rightarrow> (if y < 0 then PInf else NInf)
      | (_, _) \<Rightarrow> NaN)"

text \<open>\<^verbatim>\<open>np.sum\<close>, \<^verbatim>\<open>np.nansum\<close> and \<^verbatim>\<open>np.mean\<close> of a one-dimensional array.\<close>

definition np_sum :: "npfloat list \<Rightarrow> npfloat" where
  "np_sum xs = foldl np_add (Num 0) xs"

definition np_nansum :: "npfloat list \<Rightarrow> npfloat" where
  "np_nansum xs = np_sum (filter (\<lambda>x. \<not> isnan x) xs)"

definition np_mean :: "npfloat list \<Rightarrow> npfloat" where
  "np_mean xs = np_div (np_sum xs) (Num (real (length xs)))"

subsection \<open>\<^verbatim>\<open>_pdf_calc\<close>\<close>

text \<open>
  The argument \<open>bins\<close> of the kernel: \<^verbatim>\<open>None\<close>, a number of bins, or an array of
  edges. \<^verbatim>\<open>inbins = 10 if bins is None else bins\<close> and
  \<^verbatim>\<open>lbins = inbins if isinstance(inbins, int) else len(inbins) - 1\<close>.
\<close>

datatype bins = NBins nat | Edges "npfloat list"

definition inbins_of :: "bins option \<Rightarrow> bins" where
  "inbins_of b = (case b of None \<Rightarrow> NBins 10 | Some inbins \<Rightarrow> inbins)"

fun lbins_of :: "bins \<Rightarrow> int" where
  "lbins_of (NBins n) = int n"
| "lbins_of (Edges es) = int (length es) - 1"

text \<open>
  An element of the kernel's result. \<^verbatim>\<open>np.hstack((dry_events, hdata))\<close> puts the count
  of dry events in front of the bins; when \<open>dry_events\<close> is \<^verbatim>\<open>None\<close> the result is an
  array of objects whose first element is \<^verbatim>\<open>None\<close>.
\<close>

datatype cell = PyNone | Flt npfloat

definition hstack :: "nat option \<Rightarrow> npfloat list \<Rightarrow> cell list" where
  "hstack dry_events hdata =
     (case dry_events of None \<Rightarrow> PyNone | Some n \<Rightarrow> Flt (Num (real n))) # map Flt hdata"

text \<open>
  The normalized branch. \<open>binned\<close> is the result of \<^verbatim>\<open>np.digitize(indata, bins)\<close>, one
  bin number for each value. For each bin \<open>1, \<dots>, len(bins) - 1\<close> the dictionary holds
  the values of that bin, or the scalar \<^verbatim>\<open>nan\<close> for a bin that does not occur.
\<close>

definition bin_values :: "npfloat list \<Rightarrow> int list \<Rightarrow> int \<Rightarrow> npfloat list" where
  "bin_values indata binned bint =
     (if bint \<in> set binned
      then map fst (filter (\<lambda>(x, b). b = bint) (zip indata binned))
      else [NaN])"

definition normalized_hdata :: "npfloat list \<Rightarrow> int list \<Rightarrow> nat \<Rightarrow> npfloat list" where
  "normalized_hdata indata binned len_bins =
     (let binned_dict = map (\<lambda>bint. bin_values indata binned (int bint)) [1 ..< len_bins];
          means = map (\<lambda>arr. if \<not> list_all isnan arr then np_mean arr else Num 0) binned_dict;
          ocrns = map (\<lambda>arr. if \<not> list_all isnan arr then Num (real (length arr)) else Num 0)
                    binned_dict;
          frequency = map (\<lambda>oc. np_div oc (np_nansum ocrns)) ocrns;
          C = map2 np_mul frequency means
      in map (\<lambda>c. np_div c (np_nansum C)) C)"

text \<open>
  The inner function \<^verbatim>\<open>_compute\<close>. The first two arguments stand for numpy:
  \<open>np_histogram indata bins\<close> is \<^verbatim>\<open>np.histogram(indata, bins=bins, density=True)[0]\<close>
  and \<open>np_digitize indata bins\<close> is \<^verbatim>\<open>np.digitize(indata, bins)\<close>, each with the
  exception numpy raises on arguments it refuses. In the normalized branch
  \<^verbatim>\<open>len(bins)\<close> raises \<^verbatim>\<open>TypeError\<close> on a number of bins.
\<close>

definition pdf_compute ::
  "(npfloat list \<Rightarrow> bins \<Rightarrow> error + npfloat list) \<Rightarrow>
   (npfloat list \<Rightarrow> bins \<Rightarrow> error + int list) \<Rightarrow>
   bins \<Rightarrow> int \<Rightarrow> bool \<Rightarrow> real option \<Rightarrow> real option \<Rightarrow> npfloat list \<Rightarrow>
   error + cell list \<times> string list" where
  "pdf_compute np_histogram np_digitize bins lbins norm' thr dry_thr data1d =
     (if list_all isnan data1d then
        Inr (map Flt (replicate (nat (lbins + 1)) NaN), [''All data missing/masked!''])
      else
        let data1d = (if list_ex isnan data1d then filter (\<lambda>x. \<not> isnan x) data1d else data1d);
            dry_events = (case dry_thr of
                            Some t \<Rightarrow> Some (length (filter (\<lambda>x. np_lt x t) data1d))
                          | None \<Rightarrow> None);
            indata = (case thr of
                        Some t \<Rightarrow> filter (\<lambda>x. np_ge x t) data1d
                      | None \<Rightarrow> data1d)
        in
          if norm' then
            thenE (np_digitize indata bins) (\<lambda>binned.
              case bins of
                NBins n \<Rightarrow> Inl TypeError
              | Edges es \<Rightarrow>
                  Inr (hstack dry_events (normalized_hdata indata binned (length es)), []))
          else
            thenE (np_histogram indata bins) (\<lambda>hdata. Inr (hstack dry_events hdata, [])))"

text \<open>
  \<^verbatim>\<open>_pdf_calc\<close>. With \<^verbatim>\<open>keepdims\<close> the results of the rows go through
  \<^verbatim>\<open>np.apply_along_axis\<close>; they are arrays of floats or, with \<^verbatim>\<open>None\<close> in front,
  of objects, and the third argument stands for numpy's conversion between the two
  when a row is assigned into the buffer.
\<close>

definition pdf_calc ::
  "(npfloat list \<Rightarrow> bins \<Rightarrow> error + npfloat list) \<Rightarrow>
   (npfloat list \<Rightarrow> bins \<Rightarrow> error + int list) \<Rightarrow>
   (cell list \<Rightarrow> cell list \<Rightarrow> error + cell list) \<Rightarrow>
   ndarray \<Rightarrow> bins option \<Rightarrow> bool \<Rightarrow> bool \<Rightarrow> real option \<Rightarrow> real option \<Rightarrow>
   error + cell kernel_out \<times> string list" where
  "pdf_calc np_histogram np_digitize np_store data bins norm' keepdims thr dry_event_thr =
     (let inbins = inbins_of bins; lbins = lbins_of inbins in
      if keepdims then
        apply_along_axis np_store
          (pdf_compute np_histogram np_digitize inbins lbins norm' thr dry_event_thr) data
      else
        thenE (pdf_compute np_histogram np_digitize inbins lbins norm' thr dry_event_thr
                 (case data of Arr1 xs \<Rightarrow> xs | ArrN k rows \<Rightarrow> concat rows))
          (\<lambda>(h, out). Inr (Out1 h, out)))"

subsection \<open>\<^verbatim>\<open>freq_int_dist\<close>\<close>








section \<open>Example inputs\<close>

text \<open>One pixel of a variable \<^verbatim>\<open>tas\<close> at three time steps, one, six and 24 hours
  apart.\<close>

definition hourly :: dataset where
  "hourly = \<lparr>time = [0, 3600, 7200], data_vars = [(''tas'', [[Num 1, Num 2, Num 3]])]\<rparr>"

definition six_hourly :: dataset where
  "six_hourly = \<lparr>time = [0, 21600, 43200], data_vars = [(''tas'', [[Num 1, Num 2, Num 3]])]\<rparr>"

definition daily :: dataset where
  "daily = \<lparr>time = [0, 86400, 172800], data_vars = [(''tas'', [[Num 1, Num 2, Num 3]])]\<rparr>"

text \<open>The settings of \<^verbatim>\<open>moments\<close> with the defaults of every option but
  \<^verbatim>\<open>'moment stat'\<close>.\<close>

definition moments_config :: "pyval \<Rightarrow> stats_config" where
  "moments_config mstat = [(''moments'', [
       (''vars'', PList []),
       (''moment stat'', mstat),
       (''resample resolution'', PNone),
       (''pool data'', PBool False),
       (''thr'', PNone),
       (''cond analysis'', PNone),
       (''chunk dimension'', PStr ''time'')])]"

text \<open>The settings of \<^verbatim>\<open>diurnal cycle\<close> and of \<^verbatim>\<open>dcycle harmonic\<close> with the defaults of
  the options that are not arguments.\<close>

definition diurnal_config :: "pyval \<Rightarrow> pyval \<Rightarrow> pyval \<Rightarrow> stats_config" where
  "diurnal_config dcycle_stat stat_method thr = [(''diurnal cycle'', [
       (''vars'', PList []),
       (''resample resolution'', PNone),
       (''hours'', PNone),
       (''dcycle stat'', dcycle_stat),
       (''stat method'', stat_method),
       (''method kwargs'', PNone),
       (''thr'', thr),
       (''cond analysis'', PNone),
       (''pool data'', PBool False),
       (''chunk dimension'', PStr ''space'')])]"

definition harmonic_config :: "pyval \<Rightarrow> pyval \<Rightarrow> stats_config" where
  "harmonic_config dcycle_stat thr = [(''dcycle harmonic'', [
       (''vars'', PList []),
       (''resample resolution'', PNone),
       (''pool data'', PBool False),
       (''dcycle stat'', dcycle_stat),
       (''thr'', thr),
       (''cond analysis'', PNone),
       (''chunk dimension'', PStr ''space'')])]"

text \<open>An \<^verbatim>\<open>eval\<close> that accepts no text, for the runs that never call it.\<close>

definition no_eval :: "string \<Rightarrow> error + pyval" where
  "no_eval s = Inl SyntaxError"

text \<open>Stand-ins for \<^verbatim>\<open>np.arange\<close> on floats: one that always raises, for the runs that
  never call it, and one that returns the four values \<open>0.1, 0.2, 0.3, 0.4\<close>, the
  number of values that numpy returns for \<^verbatim>\<open>np.arange(0.1, 0.4, 0.1)\<close>.\<close>

definition no_arange :: "real \<Rightarrow> real \<Rightarrow> real \<Rightarrow> error + real list" where
  "no_arange start stop step = Inl ValueError"


text \<open>The settings of \<^verbatim>\<open>signal filtering\<close> with the defaults of the options that are
  not arguments, and a stand-in for the weights: a window of equal weights.\<close>

definition filter_config :: "pyval \<Rightarrow> pyval \<Rightarrow> pyval \<Rightarrow> pyval \<Rightarrow> stats_config" where
  "filter_config window mode cutoff cutoff2 = [(''signal filtering'', [
       (''vars'', PList []),
       (''resample resolution'', PNone),
       (''pool data'', PBool False),
       (''filter'', PStr ''lanczos''),
       (''cutoff type'', PStr ''lowpass''),
       (''window'', window),
       (''mode'', mode),
       (''1st cutoff'', cutoff),
       (''2nd cutoff'', cutoff2),
       (''filter dim'', PInt 1),
       (''thr'', PNone),
       (''cond analysis'', PNone),
       (''chunk dimension'', PStr ''space'')])]"

definition flat_filter :: "real \<Rightarrow> real \<Rightarrow> real \<Rightarrow> pyval \<Rightarrow> error + real list" where
  "flat_filter window fc1 fc2 ftype = Inr (replicate (nat \<lfloor>window\<rfloor>) (1 / window))"

text \<open>The elements of an array, and a store whose address 0 holds the series
  \<open>[1, 5]\<close>. The stand-in for \<^verbatim>\<open>np.nanpercentile\<close> returns an empty row for each
  level.\<close>

fun elems :: "ndarray \<Rightarrow> npfloat list" where
  "elems (Arr1 xs) = xs"
| "elems (ArrN k rows) = concat rows"

definition no_percentile :: "ndarray \<Rightarrow> real list \<Rightarrow> error + npfloat list list" where
  "no_percentile a q = Inr (map (\<lambda>_. []) q)"

definition store0 :: store where
  "store0 = (\<lambda>_. Arr1 [])(0 := Arr1 [Num 1, Num 5])"

text \<open>Stand-ins for \<^verbatim>\<open>curve_fit\<close>: one that returns the same parameters for every
  series, and one that always raises.\<close>

definition const_fit ::
  "(real \<Rightarrow> real \<Rightarrow> real \<Rightarrow> real \<Rightarrow> real) \<Rightarrow> real list \<Rightarrow> npfloat list \<Rightarrow>
   error + real \<times> real \<times> real" where
  "const_fit f xdata ydata = Inr (5, 2, 1)"

text \<open>The 24 values of a diurnal cycle, none missing, the first one infinite.\<close>

definition day_with_inf :: "npfloat list" where
  "day_with_inf = PInf # replicate 23 (Num 1)"

definition failing_fit ::
  "(real \<Rightarrow> real \<Rightarrow> real \<Rightarrow> real \<Rightarrow> real) \<Rightarrow> real list \<Rightarrow> npfloat list \<Rightarrow>
   error + real \<times> real \<times> real" where
  "failing_fit f xdata ydata = Inl ValueError"





section \<open>The configuration resolver never rejects a key\<close>

lemma default_stats_config_from_dom:
  "default_stats_config_from acc ks = Inr dd \<Longrightarrow> dom (map_of dd) = dom (map_of acc) \<union> set ks"
proof (induction ks arbitrary: acc)
  case Nil
  then show ?case by simp
next
  case (Cons k ks)
  then show ?case
    by (auto simp: update_conv' split: option.splits)
qed

lemma set_item_dom:
  "set_item dd k m v = Inr dd' \<Longrightarrow> dom (map_of dd') = dom (map_of dd)"
  by (auto simp: set_item_def update_conv' split: option.splits if_splits)

lemma set_item_KeyError:
  "set_item dd k m v = Inl e \<Longrightarrow> k \<notin> dom (map_of dd)"
  by (auto simp: set_item_def split: option.splits)

lemma override_keys_silent:
  "override_keys k req ms (dd, out) = Inr (dd', out') \<Longrightarrow> k \<in> dom (map_of dd) \<Longrightarrow>
   out' = out \<and> dom (map_of dd') = dom (map_of dd)"
proof (induction ms arbitrary: dd)
  case Nil
  then show ?case by simp
next
  case (Cons m ms)
  from Cons.prems obtain v where v: "map_of req m = Some v"
    by (auto split: option.splits)
  show ?case
  proof (cases "set_item dd k m v")
    case (Inl e)
    with Cons.prems(2) show ?thesis
      using set_item_KeyError by blast
  next
    case (Inr dd1)
    then have d: "dom (map_of dd1) = dom (map_of dd)"
      by (rule set_item_dom)
    from Cons.prems(1) v Inr have "override_keys k req ms (dd1, out) = Inr (dd', out')"
      by simp
    with Cons.IH [of dd1] Cons.prems(2) d show ?thesis
      by simp
  qed
qed

lemma override_stats_silent:
  "override_stats rs ks (dd, out) = Inr (dd', out') \<Longrightarrow> set ks \<subseteq> dom (map_of dd) \<Longrightarrow>
   out' = out"
proof (induction ks arbitrary: dd)
  case Nil
  then show ?case by simp
next
  case (Cons k ks)
  show ?case
  proof (cases "map_of rs k")
    case None
    with Cons.prems(1) show ?thesis by simp
  next
    case (Some r)
    show ?thesis
    proof (cases r)
      case Default
      with Some Cons show ?thesis by simp
    next
      case (Overrides req)
      with Some Cons.prems(1) obtain dd1 out1 where
        s1: "override_keys k req (map fst req) (dd, out) = Inr (dd1, out1)" and
        s2: "override_stats rs ks (dd1, out1) = Inr (dd', out')"
        by (auto split: sum.splits)
      from override_keys_silent [OF s1] Cons.prems(2)
      have "out1 = out" "dom (map_of dd1) = dom (map_of dd)"
        by auto
      with Cons.IH [of dd1] s2 Cons.prems(2) show ?thesis
        by simp
    qed
  qed
qed

text \<open>Whatever is requested, a run that returns has printed no diagnostic.\<close>

lemma mod_stats_config_silent:
  "mod_stats_config requested_stats = Inr (dd, out) \<Longrightarrow> out = []"
  unfolding mod_stats_config_def default_stats_config_def
  by (auto split: sum.splits dest!: default_stats_config_from_dom
      dest: override_stats_silent)

text \<open>
  Claim C1. The claim: an override key that is not in the statistic's default schema is
  reported with a diagnostic and the settings keep the default, so that the unknown key
  never enters the settings record. What the code does: for every statistic \<open>k\<close> of the
  table and every key \<open>m\<close>, in the schema or not, the override is stored under \<open>m\<close> and
  nothing is printed. The \<^verbatim>\<open>except KeyError\<close> branch is never taken, because an item
  assignment to a dict inserts a missing key.
\<close>

theorem mod_stats_config_accepts_any_key:
  "map_of stats_dict k = Some c \<Longrightarrow>
   mod_stats_config [(k, Overrides [(m, v)])] = Inr ([(k, AList.update m v c)], [])"
  by (simp add: mod_stats_config_def default_stats_config_def set_item_def)

theorem mod_stats_config_accepts_any_key_witness:
  "setting stats_dict ''pdf'' ''foo'' = None \<and>
   (\<exists>dd. mod_stats_config [(''pdf'', Overrides [(''foo'', PInt 1)])] = Inr (dd, []) \<and>
      setting dd ''pdf'' ''foo'' = Some (PInt 1))"
  using mod_stats_config_accepts_any_key [of "''pdf''" _ "''foo''" "PInt 1"]
  by (simp add: stats_dict_def setting_def)

section \<open>Moments: the \<^verbatim>\<open>'all'\<close> statistic and the resampling test\<close>

text \<open>After the first lines of \<^verbatim>\<open>moments\<close> the test \<^verbatim>\<open>mstat[0] == 'all'\<close> cannot hold:
  a string has been prefixed with \<^verbatim>\<open>1\<close>, anything else is not a string.\<close>

lemma prefix_one_not_all:
  "prefix_one mstat0 = Inr mstat \<Longrightarrow> item mstat 0 \<noteq> Inr (PStr ''all'')"
  by (cases mstat0) (auto simp: prefix_one_def split: pyval.splits if_splits)

lemma get_freq_1all: "get_freq ''1all'' = Inr (1, ''all'')"
  by (simp add: get_freq_def is_digit_def digit_chars_def int_of_digits_def digit_val_def)

lemma get_freq_1D: "get_freq ''1D'' = Inr (1, ''D'')"
  by (simp add: get_freq_def is_digit_def digit_chars_def int_of_digits_def digit_val_def)

lemma pandas_all: "pandas_to_timedelta n ''all'' = Inl ValueError"
  by (simp add: pandas_to_timedelta_def)

text \<open>
  Claim C3. The claim: with the \<^verbatim>\<open>'all'\<close> moment configured, \<^verbatim>\<open>moments\<close> reduces the
  whole time axis to one value and does not fail. What the code does: for every dataset
  with at least two time steps and every variable, a moment statistic whose first entry
  is \<^verbatim>\<open>'all'\<close> becomes \<^verbatim>\<open>'1all'\<close>, \<^verbatim>\<open>_get_freq\<close> returns the unit \<^verbatim>\<open>'all'\<close>, and
  \<^verbatim>\<open>to_timedelta\<close> raises \<^verbatim>\<open>ValueError\<close> before the test for \<^verbatim>\<open>'all'\<close> is reached.
\<close>

theorem moments_all_fails:
  assumes "cfg_get stat_config stat ''moment stat'' = Inr (PList (PStr ''all'' # rest))"
    and "cfg_get stat_config stat ''thr'' = Inr PNone"
    and "time data = t0 # t1 # ts"
  shows "moments pandas_to_timedelta data var stat stat_config = Inl ValueError"
  using assms
  by (simp add: moments_def prefix_one_def threshold_where_def time_step_def
      get_freq_1all pandas_all)

theorem moments_all_fails_witness:
  "moments pandas_to_timedelta hourly ''tas'' ''moments''
     (moments_config (PList [PStr ''all'', PStr ''mean''])) = Inl ValueError"
  by (rule moments_all_fails [where rest = "[PStr ''mean'']" and ?t0.0 = 0 and ?t1.0 = 3600
        and ts = "[7200]"])
    (simp_all add: cfg_get_def moments_config_def hourly_def)

text \<open>Given as a plain string, \<^verbatim>\<open>'all'\<close> fails earlier: the prefix cannot be assigned
  into a string.\<close>

lemma moments_all_string_fails:
  "moments pandas_to_timedelta hourly ''tas'' ''moments'' (moments_config (PStr ''all'')) =
     Inl TypeError"
  by (simp add: moments_def cfg_get_def moments_config_def prefix_one_def)

text \<open>
  Claim C6, as stated: whenever the requested resolution is coarser than or equal to the
  native one, \<^verbatim>\<open>moments\<close> does not resample. It fails on hourly data with the default
  statistic \<^verbatim>\<open>['D', 'mean']\<close>: the requested step of one day (86400 s) is coarser than
  the native step of one hour (3600 s), and the data is resampled.
\<close>

theorem moments_resamples_counterexample:
  "time_step hourly = Inr 3600 \<and> pandas_to_timedelta 1 ''D'' = Inr 86400 \<and>
   moments pandas_to_timedelta hourly ''tas'' ''moments''
     (moments_config (PList [PStr ''D'', PStr ''mean''])) =
   Inr (\<lparr>result = Resample hourly ''tas'' ''1D'' ''mean'',
         Description = (''Moment statistic: {} | Threshold: {}'', [PStr ''1D MEAN'', PNone])\<rparr>, [])"
  by (simp add: moments_def prefix_one_def threshold_where_def time_step_def cfg_get_def
      moments_config_def hourly_def get_freq_1D pandas_to_timedelta_def get_var_def
      upper_def upper_char_def)

text \<open>A bare unit, prefixed with the count 1, is read by \<^verbatim>\<open>_get_freq\<close> as one such
  unit.\<close>

lemma get_freq_bare:
  assumes "bare_unit u"
  shows "get_freq (''1'' @ u) = Inr (unit_step u)"
proof -
  from assms have ne: "u \<noteq> []" and nd: "\<forall>c\<in>set u. \<not> is_digit c"
    by (auto simp: bare_unit_def list_ex_iff)
  have d1: "is_digit CHR ''1''"
    by (simp add: is_digit_def digit_chars_def)
  from nd have fd: "filter is_digit u = []" and fu: "filter (\<lambda>c. \<not> is_digit c) u = u"
    by (auto simp: filter_empty_conv filter_id_conv)
  have iv: "int_of_digits ''1'' = 1"
    by (simp add: int_of_digits_def digit_val_def digit_chars_def)
  show ?thesis
    using ne d1 fd fu iv
    by (simp add: get_freq_def unit_step_def Let_def)
qed

text \<open>
  Claim C6, amended: the test is the other way round, and it is stated for a
  resolution token that is a bare unit, as the default \<^verbatim>\<open>'D'\<close> is. With a moment
  statistic \<^verbatim>\<open>[u, m]\<close> of two strings, \<open>u\<close> a bare unit, \<open>data'\<close> the data after
  threshold masking, \<open>nsec\<close> its native time step and \<open>sec_resample\<close> the seconds of one
  unit \<open>u\<close>, the masked data passes through unchanged exactly when
  \<open>nsec \<ge> sec_resample\<close>, that is when the native resolution is coarser than or equal to
  the requested one; otherwise it is resampled to one unit \<open>u\<close> with the reduction \<open>m\<close>.
\<close>

theorem moments_keeps_iff_native_coarser:
  assumes "cfg_get stat_config stat ''moment stat'' = Inr (PList [PStr u, PStr m])"
    and "bare_unit u"
    and "threshold_where stat_config stat var data = Inr (thr, data')"
    and "time_step data' = Inr nsec"
    and "to_timedelta (fst (unit_step u)) (snd (unit_step u)) = Inr sec_resample"
    and "get_var data' var = Inr a"
  shows "moments to_timedelta data var stat stat_config =
    Inr (\<lparr>result = (if nsec \<ge> sec_resample then Copy data'
                      else Resample data' var (''1'' @ u) m),
          Description = (''Moment statistic: {} | Threshold: {}'',
                         [PStr (upper (''1'' @ u) @ '' '' @ upper m), thr])\<rparr>,
         if nsec \<ge> sec_resample then [keeping_msg] else [])"
proof -
  obtain tr fr where tf: "unit_step u = (tr, fr)"
    by (cases "unit_step u")
  with get_freq_bare [OF assms(2)] have g: "get_freq (''1'' @ u) = Inr (tr, fr)"
    by simp
  from tf assms(5) have t: "to_timedelta tr fr = Inr sec_resample"
    by simp
  show ?thesis
    using assms(1,3,4,6) g t by (simp add: moments_def prefix_one_def)
qed

theorem moments_keeps_iff_native_coarser_witness:
  "moments pandas_to_timedelta daily ''tas'' ''moments''
     (moments_config (PList [PStr ''D'', PStr ''mean''])) =
   Inr (\<lparr>result = Copy daily,
         Description = (''Moment statistic: {} | Threshold: {}'', [PStr ''1D MEAN'', PNone])\<rparr>,
        [keeping_msg])"
  using moments_keeps_iff_native_coarser [where stat_config = "moments_config (PList [PStr ''D'', PStr ''mean''])"
      and stat = "''moments''" and u = "''D''" and m = "''mean''" and var = "''tas''" and data = daily
      and thr = PNone and data' = daily and nsec = 86400 and to_timedelta = pandas_to_timedelta
      and sec_resample = 86400 and a = "[[Num 1, Num 2, Num 3]]"]
  by (simp add: threshold_where_def time_step_def cfg_get_def bare_unit_def is_digit_def
      digit_chars_def unit_step_def
      moments_config_def daily_def pandas_to_timedelta_def get_var_def
      upper_def upper_char_def)

text \<open>
  A token that carries a count is outside the amended claim. The code prefixes it in
  the same way: \<^verbatim>\<open>'3H'\<close> becomes \<^verbatim>\<open>'13H'\<close>, and data at steps of six hours, coarser
  than three hours, is resampled to 13 hours.
\<close>

lemma get_freq_13H: "get_freq ''13H'' = Inr (13, ''H'')"
  by (simp add: get_freq_def is_digit_def digit_chars_def int_of_digits_def digit_val_def)

lemma moments_count_token_prefixed:
  "moments pandas_to_timedelta six_hourly ''tas'' ''moments''
     (moments_config (PList [PStr ''3H'', PStr ''mean''])) =
   Inr (\<lparr>result = Resample six_hourly ''tas'' ''13H'' ''mean'',
         Description = (''Moment statistic: {} | Threshold: {}'', [PStr ''13H MEAN'', PNone])\<rparr>,
        [])"
  by (simp add: moments_def prefix_one_def threshold_where_def time_step_def cfg_get_def
      moments_config_def six_hourly_def get_freq_13H pandas_to_timedelta_def get_var_def
      upper_def upper_char_def)

section \<open>Diurnal cycle: percentiles and the mandatory threshold\<close>

lemma thenE_Inr_iff: "thenE m f = Inr y \<longleftrightarrow> (\<exists>x. m = Inr x \<and> f x = Inr y)"
  by (cases m) auto

text \<open>The percentile case of the amount branch leaves \<open>dcycle\<close> unbound.\<close>

lemma diurnal_amount_percentile_unbound:
  assumes "cfg_get stat_config stat ''stat method'' = Inr (PStr tstat)"
    and "str_contains ''percentile'' tstat"
    and "diurnal_amount py_eval np_arange data var stat stat_config thr = Inr l"
  shows "dcycle l = None"
  using assms
  by (auto simp: diurnal_amount_def thenE_Inr_iff split: if_splits)

text \<open>Hence no percentile request in amount mode ever returns a result, whatever the
  percentile argument is and whatever \<^verbatim>\<open>eval\<close> makes of it.\<close>

lemma diurnal_percentile_never_returns:
  assumes "cfg_get stat_config stat ''dcycle stat'' = Inr (PStr ''amount'')"
    and "cfg_get stat_config stat ''stat method'' = Inr (PStr tstat)"
    and "str_contains ''percentile'' tstat"
  shows "diurnal_cycle py_eval np_arange data var stat stat_config \<noteq> Inr r"
proof
  assume "diurnal_cycle py_eval np_arange data var stat stat_config = Inr r"
  then obtain thr data' l dc where
    l: "diurnal_amount py_eval np_arange (fst (check_hours data')) var stat stat_config thr = Inr l"
    and dc: "read_local (dcycle l) = Inr dc"
    using assms(1)
    by (auto simp: diurnal_cycle_def thenE_Inr_iff Let_def)
  from diurnal_amount_percentile_unbound [OF assms(2,3) l] dc show False
    by (simp add: read_local_def)
qed

text \<open>
  Claim C4. The claim: in amount mode with a stat method that contains
  \<^verbatim>\<open>percentile\<close> and a well-formed percentile argument, \<^verbatim>\<open>diurnal_cycle\<close> succeeds
  and returns the percentiles per hour. What the code does: with an argument made of
  digits (as in \<^verbatim>\<open>'percentile 95'\<close>), a threshold block that passes and the variable
  present in the data, the percentile case stores its result in \<open>st_data\<close>, and the
  statement \<^verbatim>\<open>dcycle = dcycle.chunk({'hour': -1})\<close> after the branches reads the unbound
  \<open>dcycle\<close>: the call raises \<^verbatim>\<open>UnboundLocalError\<close>.
\<close>

theorem diurnal_percentile_unbound:
  assumes "cfg_get stat_config stat ''dcycle stat'' = Inr (PStr ''amount'')"
    and "cfg_get stat_config stat ''stat method'' = Inr (PStr tstat)"
    and "str_contains ''percentile'' tstat"
    and "isdigit (after_space tstat)"
    and "threshold_where stat_config stat var data = Inr (thr, data')"
    and "get_var data' var = Inr a"
  shows "diurnal_cycle py_eval np_arange data var stat stat_config = Inl UnboundLocalError"
proof -
  have q: "after_space tstat \<noteq> []"
    using assms(4) by (auto simp: isdigit_def)
  have v: "get_var (fst (check_hours data')) var = Inr a"
    using assms(6) by (simp add: check_hours_def get_var_def)
  show ?thesis
    using assms(1,2,3,4,5) q v
    by (simp add: diurnal_cycle_def diurnal_amount_def read_local_def Let_def)
qed

theorem diurnal_percentile_unbound_witness:
  "diurnal_cycle no_eval no_arange hourly ''tas'' ''diurnal cycle''
     (diurnal_config (PStr ''amount'') (PStr ''percentile 95'') PNone) = Inl UnboundLocalError"
  by (rule diurnal_percentile_unbound [where tstat = "''percentile 95''" and thr = PNone
        and data' = hourly and a = "[[Num 1, Num 2, Num 3]]"])
    (simp_all add: cfg_get_def diurnal_config_def threshold_where_def get_var_def hourly_def
      isdigit_def is_digit_def digit_chars_def)

text \<open>
  Claim C8. In frequency mode, when no threshold resolves for the variable (the option
  \<^verbatim>\<open>thr\<close> is \<^verbatim>\<open>None\<close>, or it is a mapping without an entry for the variable), both
  \<^verbatim>\<open>diurnal_cycle\<close> and \<^verbatim>\<open>dcycle_harmonic_fit\<close> fail on their assertion; no result is
  produced.
\<close>

theorem frequency_needs_threshold:
  assumes "cfg_get stat_config stat ''dcycle stat'' = Inr (PStr ''frequency'')"
    and "cfg_get stat_config stat ''thr'' = Inr in_thr"
    and "in_thr = PNone \<or> (\<exists>d. in_thr = PDict d \<and> map_of d var = None)"
  shows "diurnal_cycle py_eval np_arange data var stat stat_config = Inl AssertionError \<and>
         dcycle_harmonic_fit data var stat stat_config = Inl AssertionError"
proof -
  have "threshold_where stat_config stat var data = Inr (PNone, data)"
    using assms(2,3) by (auto simp: threshold_where_def)
  then show ?thesis
    using assms(1)
    by (simp add: diurnal_cycle_def dcycle_harmonic_fit_def diurnal_frequency_def Let_def)
qed

theorem frequency_needs_threshold_witness:
  "diurnal_cycle no_eval no_arange hourly ''tas'' ''diurnal cycle''
      (diurnal_config (PStr ''frequency'') (PStr ''mean'') PNone) = Inl AssertionError \<and>
   dcycle_harmonic_fit hourly ''tas'' ''dcycle harmonic''
      (harmonic_config (PStr ''frequency'') (PDict [(''pr'', PFloat 1)])) = Inl AssertionError"
  using frequency_needs_threshold [where stat_config = "diurnal_config (PStr ''frequency'') (PStr ''mean'') PNone"
      and stat = "''diurnal cycle''" and in_thr = PNone and var = "''tas''" and py_eval = no_eval
      and np_arange = no_arange and data = hourly]
    frequency_needs_threshold [where stat_config = "harmonic_config (PStr ''frequency'') (PDict [(''pr'', PFloat 1)])"
      and stat = "''dcycle harmonic''" and in_thr = "PDict [(''pr'', PFloat 1)]" and var = "''tas''"
      and py_eval = no_eval and np_arange = no_arange and data = hourly]
  by (simp add: cfg_get_def diurnal_config_def harmonic_config_def)

text \<open>With a threshold for the variable, the same requests return a result.\<close>

lemma frequency_with_threshold_returns:
  "(\<exists>r. diurnal_cycle no_eval no_arange hourly ''tas'' ''diurnal cycle''
      (diurnal_config (PStr ''frequency'') (PStr ''mean'') (PDict [(''tas'', PFloat 2)])) = Inr r) \<and>
   (\<exists>r. dcycle_harmonic_fit hourly ''tas'' ''dcycle harmonic''
      (harmonic_config (PStr ''frequency'') (PDict [(''tas'', PFloat 2)])) = Inr r)"
  by (simp add: diurnal_cycle_def dcycle_harmonic_fit_def cfg_get_def harmonic_config_def
     diurnal_config_def threshold_where_def diurnal_frequency_def Let_def
     where_ge_def get_var_def hourly_def read_local_def check_hours_def minute_def)

section \<open>Signal filtering: the window and the declared length\<close>







text \<open>With the default cutoffs, which are \<^verbatim>\<open>None\<close>, the division \<^verbatim>\<open>1/cutoff\<close> raises.\<close>

lemma filtering_default_cutoffs:
  "filtering flat_filter hourly ''tas'' ''signal filtering''
     (filter_config (PInt 61) (PStr ''same'') PNone PNone) = Inl TypeError"
  by (simp add: filtering_def cfg_get_def filter_config_def py_mod2_def threshold_where_def
      reciprocal_def)

section \<open>The percentile kernel writes into its argument\<close>

lemma np_lt_not_NaN: "np_lt x t \<Longrightarrow> x \<noteq> NaN"
  by (cases x) auto

lemma map_mask_changes:
  "list_ex (\<lambda>x. np_lt x t) xs \<Longrightarrow> map (\<lambda>x. if np_lt x t then NaN else x) xs \<noteq> xs"
proof (induction xs)
  case Nil
  then show ?case by simp
next
  case (Cons a xs)
  then show ?case by (auto dest: np_lt_not_NaN)
qed

lemma map_map_mask_changes:
  "list_ex (\<lambda>x. np_lt x t) (concat rows) \<Longrightarrow>
   map (map (\<lambda>x. if np_lt x t then NaN else x)) rows \<noteq> rows"
proof (induction rows)
  case Nil
  then show ?case by simp
next
  case (Cons r rows)
  then show ?case using map_mask_changes [of t r] by (auto simp: list_ex_iff)
qed

lemma map_elems_mask_changes:
  "list_ex (\<lambda>x. np_lt x t) (elems a) \<Longrightarrow> map_elems (\<lambda>x. if np_lt x t then NaN else x) a \<noteq> a"
  by (cases a) (auto dest: map_mask_changes map_map_mask_changes)

text \<open>
  Claim C2. The claim: no kernel changes its input array; after a call of the
  percentile kernel with a threshold, the caller's array is as before. What the code
  does: with a threshold \<open>t\<close> and an array that holds a value below \<open>t\<close>, the array
  that the caller passed holds \<^verbatim>\<open>nan\<close> in place of every value below \<open>t\<close> after the
  call, so it is not the array the caller had.
\<close>

theorem percentile_func_mutates:
  assumes "list_ex (\<lambda>x. np_lt x t) (elems (s arr))"
  shows "fst (percentile_func np_nanpercentile s arr q (Some t)) arr =
           map_elems (\<lambda>x. if np_lt x t then NaN else x) (s arr) \<and>
         fst (percentile_func np_nanpercentile s arr q (Some t)) arr \<noteq> s arr"
  using map_elems_mask_changes [OF assms] by (simp add: percentile_func_def)

theorem percentile_func_mutates_witness:
  "store0 0 = Arr1 [Num 1, Num 5] \<and>
   fst (percentile_func no_percentile store0 0 [95] (Some 3)) 0 = Arr1 [NaN, Num 5]"
  using percentile_func_mutates [of 3 store0 0 no_percentile "[95]"]
  by (simp add: store0_def)

text \<open>Without a threshold the store is left as it is, and no other array is ever
  written.\<close>

lemma percentile_func_no_threshold:
  "fst (percentile_func np_nanpercentile s arr q None) = s"
  by (simp add: percentile_func_def)

lemma percentile_func_frame:
  "a \<noteq> arr \<Longrightarrow> fst (percentile_func np_nanpercentile s arr q thr) a = s a"
  by (simp add: percentile_func_def split: option.splits)

section \<open>The harmonic fit returns 204 values\<close>

lemma length_np_linspace: "length (np_linspace start stop num) = num"
  by (simp add: np_linspace_def)

text \<open>What the inner function returns for one series.\<close>

lemma harmonic_compute_nan:
  "list_ex isnan data1d \<Longrightarrow>
   harmonic_compute curve_fit data1d = Inr (replicate 204 NaN, [''Data missing/masked!''])"
  by (simp add: harmonic_compute_def)

lemma harmonic_compute_fit:
  assumes "\<not> list_ex isnan data1d"
    and "curve_fit f1 (map real [0 ..< length data1d]) data1d = Inr (m1, c1, p1)"
    and "curve_fit f2 (map real [0 ..< length data1d]) data1d = Inr (m, c2, p2)"
  shows "harmonic_compute curve_fit data1d =
     Inr ([Num c1, Num p1, Num c2, Num p2] @
            map (\<lambda>t. Num (m + c1 * cos (2 * pi * t / 24 - p1) + c2 * cos (4 * pi * t / 24 - p2)))
              (np_linspace 0 23 200), [])"
  using assms by (simp add: harmonic_compute_def o_def)

lemma harmonic_compute_returns:
  assumes "fits_return curve_fit data1d"
  shows "\<exists>v out. harmonic_compute curve_fit data1d = Inr (v, out) \<and>
           fit_vector_of curve_fit data1d v"
proof (cases "list_ex isnan data1d")
  case True
  then show ?thesis
    by (simp add: harmonic_compute_nan fit_vector_of_def)
next
  case False
  with assms obtain m1 c1 p1 m c2 p2 where
    a: "curve_fit f1 (map real [0 ..< length data1d]) data1d = Inr (m1, c1, p1)" and
    b: "curve_fit f2 (map real [0 ..< length data1d]) data1d = Inr (m, c2, p2)"
    by (auto simp: fits_return_def)
  from harmonic_compute_fit [where curve_fit = curve_fit, OF False a b] False a b show ?thesis
    by (simp add: fit_vector_of_def length_np_linspace)
qed

text \<open>Rows of floats go through \<^verbatim>\<open>np.apply_along_axis\<close> one by one.\<close>

lemma along_rows_returns:
  assumes "\<And>a y. store_as a y = Inr y"
    and "\<forall>x\<in>set xs. \<exists>y out. f x = Inr (y, out) \<and> length y = length first \<and> P x y"
  shows "\<exists>ys outs. along_rows store_as f first xs = Inr (ys, outs) \<and> list_all2 P xs ys"
  using assms(2)
proof (induction xs)
  case Nil
  then show ?case by simp
next
  case (Cons x xs)
  from Cons.prems obtain y out where y: "f x = Inr (y, out)" "length y = length first" "P x y"
    by auto
  from Cons.IH Cons.prems obtain ys outs where
    ys: "along_rows store_as f first xs = Inr (ys, outs)" "list_all2 P xs ys"
    by auto
  have "store_as first y = Inr y"
    by (rule assms(1))
  with y ys show ?case
    by simp
qed

lemma fit_vector_of_length: "fit_vector_of curve_fit d v \<Longrightarrow> length v = 204"
  by (simp add: fit_vector_of_def)

lemma harmonic_linefit_block:
  assumes "rows \<noteq> []" and "\<forall>row\<in>set rows. fits_return curve_fit row"
  shows "\<exists>ys out. harmonic_linefit curve_fit (ArrN k rows) True = Inr (OutN k ys, out) \<and>
           list_all2 (fit_vector_of curve_fit) rows ys"
proof -
  from assms(1) obtain r rs where rows: "rows = r # rs"
    by (cases rows) auto
  with assms(2) have "fits_return curve_fit r"
    by simp
  from harmonic_compute_returns [OF this] obtain v out where
    v: "harmonic_compute curve_fit r = Inr (v, out)" "fit_vector_of curve_fit r v"
    by blast
  have "\<forall>x\<in>set rs. \<exists>y out. harmonic_compute curve_fit x = Inr (y, out) \<and>
          length y = length v \<and> fit_vector_of curve_fit x y"
    using assms(2) rows harmonic_compute_returns fit_vector_of_length v(2)
    by (metis list.set_intros(2))
  from along_rows_returns [of store_float, OF store_float_def this] obtain ys outs where
    "along_rows store_float (harmonic_compute curve_fit) v rs = Inr (ys, outs)"
    "list_all2 (fit_vector_of curve_fit) rs ys"
    by blast
  with v rows show ?thesis
    by (simp add: harmonic_linefit_def)
qed

lemma harmonic_linefit_series:
  assumes "fits_return curve_fit data1d"
  shows "\<exists>v out. harmonic_linefit curve_fit (Arr1 data1d) keepdims = Inr (Out1 v, out) \<and>
           fit_vector_of curve_fit data1d v"
  using harmonic_compute_returns [OF assms]
  by (auto simp: harmonic_linefit_def)

text \<open>In amount mode without a threshold the statistic declares the axis \<^verbatim>\<open>fit\<close> with
  204 entries.\<close>

lemma dcycle_harmonic_fit_amount:
  assumes "cfg_get stat_config stat ''dcycle stat'' = Inr (PStr ''amount'')"
    and "cfg_get stat_config stat ''thr'' = Inr PNone"
    and "get_var data var = Inr a"
  shows "dcycle_harmonic_fit data var stat stat_config =
     Inr (\<lparr>result = HarmonicFit (HourlyReduce (fst (check_hours data)) ''mean'') var 204,
           Description = (''Harmonic fit of diurnal cycle | Statistic: Amount | thr: {}'',
                          [PNone])\<rparr>,
          snd (check_hours data))"
proof -
  have "get_var (fst (check_hours data)) var = Inr a"
    using assms(3) by (simp add: check_hours_def get_var_def)
  then show ?thesis
    using assms(1,2)
    by (simp add: dcycle_harmonic_fit_def threshold_where_def Let_def)
qed

text \<open>
  Claim C7, as stated: for every pixel the fit returns a vector of 204 values. It fails
  on a diurnal cycle of 24 values without a missing one and with an infinite one: the
  test for missing values passes, \<^verbatim>\<open>curve_fit\<close> raises \<^verbatim>\<open>ValueError\<close> on data that is
  not finite, nothing catches it, and the kernel returns no vector for the block.
\<close>

theorem harmonic_linefit_counterexample:
  "\<not> list_ex isnan day_with_inf \<and> length day_with_inf = 24 \<and>
   harmonic_linefit (scipy_curve_fit const_fit) (ArrN 0 [day_with_inf]) True = Inl ValueError"
  by (simp add: day_with_inf_def isnan_def harmonic_linefit_def harmonic_compute_def
      scipy_curve_fit_def finite_float_def list_ex_iff)


text \<open>
  Claim C7, amended. Let the fits return on every row of a block that has a row. Then
  the kernel \<^verbatim>\<open>_harmonic_linefit\<close> returns one vector for each row, and each is as
  claimed: 204 entries, all missing for a row with a missing value (no fit is made on
  it), and otherwise \<open>c1, p1, c2, p2\<close> followed by the two harmonics at 200 points. The
  same holds for a single series. And \<^verbatim>\<open>dcycle_harmonic_fit\<close>, in amount mode without a
  threshold on data that has the variable, hands the hourly means to the kernel and
  declares the axis \<^verbatim>\<open>fit\<close> with 204 entries.
\<close>

theorem harmonic_fit_vectors:
  assumes "rows \<noteq> []" and "list_all (fits_return curve_fit) rows"
    and "cfg_get stat_config stat ''dcycle stat'' = Inr (PStr ''amount'')"
    and "cfg_get stat_config stat ''thr'' = Inr PNone"
    and "get_var data var = Inr a"
  shows "(\<exists>ys out. harmonic_linefit curve_fit (ArrN k rows) True = Inr (OutN k ys, out) \<and>
            list_all2 (fit_vector_of curve_fit) rows ys) \<and>
         (\<exists>v out. harmonic_linefit curve_fit (Arr1 (hd rows)) keepdims = Inr (Out1 v, out) \<and>
            fit_vector_of curve_fit (hd rows) v) \<and>
         dcycle_harmonic_fit data var stat stat_config =
           Inr (\<lparr>result = HarmonicFit (HourlyReduce (fst (check_hours data)) ''mean'') var 204,
                 Description = (''Harmonic fit of diurnal cycle | Statistic: Amount | thr: {}'',
                                [PNone])\<rparr>,
                snd (check_hours data))"
proof (intro conjI)
  from assms(2) have all: "\<forall>row\<in>set rows. fits_return curve_fit row"
    by (simp add: list_all_iff)
  from harmonic_linefit_block [OF assms(1) all]
  show "\<exists>ys out. harmonic_linefit curve_fit (ArrN k rows) True = Inr (OutN k ys, out) \<and>
          list_all2 (fit_vector_of curve_fit) rows ys" .
  from assms(1) all have "fits_return curve_fit (hd rows)"
    by simp
  from harmonic_linefit_series [OF this]
  show "\<exists>v out. harmonic_linefit curve_fit (Arr1 (hd rows)) keepdims = Inr (Out1 v, out) \<and>
          fit_vector_of curve_fit (hd rows) v" .
  from dcycle_harmonic_fit_amount [OF assms(3,4,5)]
  show "dcycle_harmonic_fit data var stat stat_config =
           Inr (\<lparr>result = HarmonicFit (HourlyReduce (fst (check_hours data)) ''mean'') var 204,
                 Description = (''Harmonic fit of diurnal cycle | Statistic: Amount | thr: {}'',
                                [PNone])\<rparr>,
                snd (check_hours data))" .
qed

theorem harmonic_fit_vectors_witness:
  "(\<exists>v w out. harmonic_linefit const_fit (ArrN 0 [[Num 1, Num 2, Num 3], [Num 1, NaN]]) True =
        Inr (OutN 0 [v, w], out) \<and>
      length v = 204 \<and> take 4 v = [Num 2, Num 1, Num 2, Num 1] \<and>
      w = replicate 204 NaN) \<and>
   (\<exists>r. dcycle_harmonic_fit hourly ''tas'' ''dcycle harmonic''
      (harmonic_config (PStr ''amount'') PNone) =
        Inr (\<lparr>result = HarmonicFit (HourlyReduce hourly ''mean'') ''tas'' 204,
              Description = r\<rparr>, []))"
proof -
  have fr: "list_all (fits_return const_fit) [[Num 1, Num 2, Num 3], [Num 1, NaN]]"
    by (simp add: fits_return_def const_fit_def isnan_def)
  have c: "cfg_get (harmonic_config (PStr ''amount'') PNone) ''dcycle harmonic'' ''dcycle stat'' =
             Inr (PStr ''amount'')"
    "cfg_get (harmonic_config (PStr ''amount'') PNone) ''dcycle harmonic'' ''thr'' = Inr PNone"
    "get_var hourly ''tas'' = Inr [[Num 1, Num 2, Num 3]]"
    by (simp_all add: cfg_get_def harmonic_config_def get_var_def hourly_def)
  have ch: "check_hours hourly = (hourly, [])"
    by (simp add: check_hours_def hourly_def minute_def)
  from harmonic_fit_vectors [where rows = "[[Num 1, Num 2, Num 3], [Num 1, NaN]]"
      and curve_fit = const_fit and k = 0 and keepdims = True, OF _ fr c]
  obtain ys out where
    y: "harmonic_linefit const_fit (ArrN 0 [[Num 1, Num 2, Num 3], [Num 1, NaN]]) True =
          Inr (OutN 0 ys, out)"
      "list_all2 (fit_vector_of const_fit) [[Num 1, Num 2, Num 3], [Num 1, NaN]] ys"
    and d: "dcycle_harmonic_fit hourly ''tas'' ''dcycle harmonic''
              (harmonic_config (PStr ''amount'') PNone) =
            Inr (\<lparr>result = HarmonicFit (HourlyReduce hourly ''mean'') ''tas'' 204,
                  Description = (''Harmonic fit of diurnal cycle | Statistic: Amount | thr: {}'',
                                 [PNone])\<rparr>, [])"
    by (auto simp: ch)
  from y(2) obtain v w where
    vw: "ys = [v, w]" "fit_vector_of const_fit [Num 1, Num 2, Num 3] v"
      "fit_vector_of const_fit [Num 1, NaN] w"
    by (auto simp: list_all2_Cons1)
  from vw(2) have "length v = 204" "take 4 v = [Num 2, Num 1, Num 2, Num 1]"
    by (auto simp: fit_vector_of_def const_fit_def isnan_def)
  moreover from vw(3) have "w = replicate 204 NaN"
    by (simp add: fit_vector_of_def isnan_def)
  ultimately show ?thesis
    using y(1) vw(1) d by auto
qed

text \<open>On a row with a missing value no fit is made: a \<^verbatim>\<open>curve_fit\<close> that always
  raises is never reached.\<close>

lemma harmonic_linefit_missing_no_fit:
  "harmonic_linefit failing_fit (ArrN 0 [[Num 1, NaN, Num 3]]) True =
     Inr (OutN 0 [replicate 204 NaN], [''Data missing/masked!''])"
  by (simp add: harmonic_linefit_def harmonic_compute_def isnan_def)

text \<open>Whenever the statistic returns, the declared size is 204.\<close>

lemma dcycle_harmonic_fit_declares_204:
  "dcycle_harmonic_fit data var stat stat_config = Inr (r, out) \<Longrightarrow>
   (\<exists>dc. result r = HarmonicFit dc var 204) \<or>
   (\<exists>dc td. result r = AssignNdays (HarmonicFit dc var 204) td)"
  by (auto simp: dcycle_harmonic_fit_def thenE_Inr_iff Let_def split: if_splits)

section \<open>The bin edges of the histogram\<close>









section \<open>The dry-event slot of the histogram kernel\<close>







end
